theory Spec2Isabelle
  imports Complex_Main
begin

section \<open>Python values shared by the model\<close>

text \<open>
  The model covers the two modules \<^verbatim>\<open>daemons/lvmdbusd/utils.py\<close> and
  \<^verbatim>\<open>daemons/lvmdbusd/background.py\<close>. A Python \<^verbatim>\<open>str\<close> is a \<open>string\<close>: a list of
  characters whose code points are below 256. Python integers are \<open>int\<close>. A function that
  can raise returns \<open>fault + 'a\<close>, with \<open>Inl\<close> for the exception; a function that
  changes module state takes the state and returns it updated.
\<close>

datatype fault =
    DBusException "string list"
  | IndexError
  | ValueError
  | OverflowError

text \<open>
  \<open>DBusException\<close> carries its positional arguments, which
  \<^verbatim>\<open>dbus.exceptions.DBusException(*args)\<close> stores unchanged.
\<close>

subsection \<open>Formatting an integer with \<^verbatim>\<open>%d\<close> and \<^verbatim>\<open>str\<close>\<close>

text \<open>
  \<open>str_nat\<close> writes a natural number in decimal, most significant digit first;
  \<open>digit_char\<close> is only applied to the digits 0 to 9.
\<close>

definition digit_char :: "nat \<Rightarrow> char" where
  "digit_char d = ''0123456789'' ! d"

function str_nat :: "nat \<Rightarrow> string" where
  "str_nat n = (if n < 10 then [digit_char n] else str_nat (n div 10) @ [digit_char (n mod 10)])"
  by pat_completeness auto
termination
  by (relation "measure id") auto

declare str_nat.simps [simp del]

definition str_int :: "int \<Rightarrow> string" where
  "str_int i = (if i < 0 then CHR ''-'' # str_nat (nat (- i)) else str_nat (nat i))"

section \<open>utils.py\<close>

subsection \<open>The module \<^verbatim>\<open>cfg\<close> and the process state\<close>

text \<open>
  Objects that \<^verbatim>\<open>cfg\<close> refers to. Only the attribute \<^verbatim>\<open>lvm_id\<close> of a bus object is read.
  \<^verbatim>\<open>RequestEntry(tmo, method, arguments, cb, cb_error, return_tuple)\<close> keeps its six
  constructor arguments; the only callable passed is \<^verbatim>\<open>_load_wrapper\<close>.
\<close>

record dbus_object =
  lvm_id :: string

datatype callable = load_wrapper

datatype request_entry =
  RequestEntry int callable "string list" "callable option" "callable option" bool

text \<open>
  Modelled from the spec: \<^verbatim>\<open>LvmExecutionMeta\<close> and the flight recorder (\<^verbatim>\<open>cmdhandler.py\<close> is not
  among the sources). "ExecutionMeta: start time, end time, exit code, argument vector,
  captured stdout, captured stderr"; exit code and captured output are absent until
  \<^verbatim>\<open>completed\<close> sets them. The recorder is "a bounded ring buffer (fixed capacity, oldest
  evicted first)". It holds references: \<^verbatim>\<open>_move_merge\<close> adds the object first and completes it
  afterwards, so the objects live in a store (\<open>metas\<close> below) and the buffer holds their
  addresses. Clock readings are whole ticks.
\<close>

record LvmExecutionMeta =
  m_start :: int
  m_ended :: int
  m_cmd :: "string list"
  m_ec :: "int option"
  m_stdout :: "string option"
  m_stderr :: "string option"

record LvmFlightRecorder =
  fr_size :: nat
  fr_queue :: "nat list"

definition flightrecorder_add :: "nat \<Rightarrow> LvmFlightRecorder \<Rightarrow> LvmFlightRecorder" where
  "flightrecorder_add r fr =
     (let q = fr_queue fr @ [r] in fr\<lparr>fr_queue := drop (length q - fr_size fr) q\<rparr>)"

definition completed :: "int \<Rightarrow> int \<Rightarrow> string \<Rightarrow> string \<Rightarrow> LvmExecutionMeta \<Rightarrow> LvmExecutionMeta" where
  "completed end_time ec out err m =
     m\<lparr>m_ended := end_time, m_ec := Some ec, m_stdout := Some out, m_stderr := Some err\<rparr>"

text \<open>
  Modelled from the spec: the module \<^verbatim>\<open>cfg\<close> (\<^verbatim>\<open>cfg.py\<close> is not among the sources), of which
  the two modules read and write these globals.
  \<^item> \<open>PV_OBJ_PATH\<close> \<open>\<dots>\<close> \<open>JOB_OBJ_PATH\<close>: the fixed bus-path prefix of each entity category.
  \<^item> \<open>pv_id\<close> \<open>\<dots>\<close> \<open>job_id\<close>: "one monotonically increasing integer per entity category"; the
    field holds the integer that the next call of \<^verbatim>\<open>next()\<close> returns.
  \<^item> \<open>got_external_event\<close>: the notification-suppression condition.
  \<^item> \<open>om\<close>: the object graph, \<^verbatim>\<open>cfg.om.get_object_by_path(p)\<close> is \<open>om c p\<close>, \<open>None\<close> for a path
    that does not resolve.
  \<^item> \<open>worker_q\<close>: the main work queue, \<^verbatim>\<open>put\<close> appends.
  \<^item> \<open>flightrecorder\<close>: the flight recorder.
  \<^item> \<open>loads\<close>: how many times \<^verbatim>\<open>cfg.load()\<close>, the full state reload, has run.

  The record also holds the rest of the process state that the two modules change:
  \<^item> \<open>metas\<close>, \<open>next_ref\<close>: the store of \<^verbatim>\<open>LvmExecutionMeta\<close> objects and the next free address;
  \<^item> \<open>stdout_log\<close>: the messages given to \<^verbatim>\<open>log_error\<close>, in order;
  \<^item> \<open>spawned\<close>: the argument vectors of the external processes started so far.
\<close>

record cfg =
  PV_OBJ_PATH :: string
  VG_OBJ_PATH :: string
  LV_OBJ_PATH :: string
  THIN_POOL_PATH :: string
  VDO_POOL_PATH :: string
  CACHE_POOL_PATH :: string
  HIDDEN_LV_PATH :: string
  JOB_OBJ_PATH :: string
  pv_id :: int
  vg_id :: int
  lv_id :: int
  thin_id :: int
  vdo_id :: int
  cache_pool_id :: int
  hidden_lv :: int
  job_id :: int
  got_external_event :: bool
  om :: "string \<Rightarrow> dbus_object option"
  worker_q :: "request_entry list"
  flightrecorder :: LvmFlightRecorder
  loads :: nat
  metas :: "nat \<Rightarrow> LvmExecutionMeta option"
  next_ref :: nat
  stdout_log :: "string list"
  spawned :: "string list list"

definition log_error :: "string \<Rightarrow> cfg \<Rightarrow> cfg" where
  "log_error msg c = c\<lparr>stdout_log := stdout_log c @ [msg]\<rparr>"

definition load :: "cfg \<Rightarrow> cfg" where
  "load c = c\<lparr>loads := loads c + 1\<rparr>"

text \<open>
  \<^verbatim>\<open>
  def _load_wrapper(ignored):
      cfg.load()
  \<close>
  of \<^verbatim>\<open>background.py\<close>, the function that a queued request runs: \<open>call\<close> runs a callable.
\<close>

fun call :: "callable \<Rightarrow> cfg \<Rightarrow> cfg" where
  "call load_wrapper c = load c"

subsection \<open>Object path generators\<close>

text \<open>
  \<^verbatim>\<open>
  def pv_obj_path_generate():
      return cfg.PV_OBJ_PATH + "/%d" % next(cfg.pv_id)
  \<close>
  and the seven functions of the same form. Each returns the path and the module state
  with its counter advanced.
\<close>

definition pv_obj_path_generate :: "cfg \<Rightarrow> string \<times> cfg" where
  "pv_obj_path_generate c =
     (PV_OBJ_PATH c @ ''/'' @ str_int (pv_id c), c\<lparr>pv_id := pv_id c + 1\<rparr>)"

definition vg_obj_path_generate :: "cfg \<Rightarrow> string \<times> cfg" where
  "vg_obj_path_generate c =
     (VG_OBJ_PATH c @ ''/'' @ str_int (vg_id c), c\<lparr>vg_id := vg_id c + 1\<rparr>)"

definition lv_obj_path_generate :: "cfg \<Rightarrow> string \<times> cfg" where
  "lv_obj_path_generate c =
     (LV_OBJ_PATH c @ ''/'' @ str_int (lv_id c), c\<lparr>lv_id := lv_id c + 1\<rparr>)"

definition thin_pool_obj_path_generate :: "cfg \<Rightarrow> string \<times> cfg" where
  "thin_pool_obj_path_generate c =
     (THIN_POOL_PATH c @ ''/'' @ str_int (thin_id c), c\<lparr>thin_id := thin_id c + 1\<rparr>)"

definition vdo_pool_object_path_generate :: "cfg \<Rightarrow> string \<times> cfg" where
  "vdo_pool_object_path_generate c =
     (VDO_POOL_PATH c @ ''/'' @ str_int (vdo_id c), c\<lparr>vdo_id := vdo_id c + 1\<rparr>)"

definition cache_pool_obj_path_generate :: "cfg \<Rightarrow> string \<times> cfg" where
  "cache_pool_obj_path_generate c =
     (CACHE_POOL_PATH c @ ''/'' @ str_int (cache_pool_id c),
      c\<lparr>cache_pool_id := cache_pool_id c + 1\<rparr>)"

definition hidden_lv_obj_path_generate :: "cfg \<Rightarrow> string \<times> cfg" where
  "hidden_lv_obj_path_generate c =
     (HIDDEN_LV_PATH c @ ''/'' @ str_int (hidden_lv c), c\<lparr>hidden_lv := hidden_lv c + 1\<rparr>)"

definition job_obj_path_generate :: "cfg \<Rightarrow> string \<times> cfg" where
  "job_obj_path_generate c =
     (JOB_OBJ_PATH c @ ''/'' @ str_int (job_id c), c\<lparr>job_id := job_id c + 1\<rparr>)"

subsection \<open>lv_object_path_method\<close>

text \<open>
  \<^verbatim>\<open>
  def lv_object_path_method(name, meta):
      if name[0] == '[':
          return _hidden_lv_obj_path_generate
      elif meta[0][0] == 't':
          return _thin_pool_obj_path_generate
      elif meta[0][0] == 'd':
          return _vdo_pool_object_path_generate
      elif meta[0][0] == 'C' and 'pool' in meta[1]:
          return _cache_pool_obj_path_generate
      return _lv_obj_path_generate
  \<close>
  \<^verbatim>\<open>meta\<close> is the pair of the attribute string and the layout. The layout is what the
  report gives: one string, where \<^verbatim>\<open>in\<close> is the substring test, or a list of strings, where
  it is membership. Indexing an empty string raises \<^verbatim>\<open>IndexError\<close>.
\<close>

datatype layout = LayoutStr string | LayoutList "string list"

fun starts_with :: "string \<Rightarrow> string \<Rightarrow> bool" where
  "starts_with [] s = True"
| "starts_with (p # ps) [] = False"
| "starts_with (p # ps) (x # xs) = (p = x \<and> starts_with ps xs)"

fun substring_of :: "string \<Rightarrow> string \<Rightarrow> bool" where
  "substring_of p [] = (p = [])"
| "substring_of p (x # xs) = (starts_with p (x # xs) \<or> substring_of p xs)"

fun py_in :: "string \<Rightarrow> layout \<Rightarrow> bool" where
  "py_in s (LayoutStr t) = substring_of s t"
| "py_in s (LayoutList ts) = (s \<in> set ts)"

definition index0 :: "string \<Rightarrow> fault + char" where
  "index0 s = (case s of [] \<Rightarrow> Inl IndexError | x # _ \<Rightarrow> Inr x)"

definition lv_object_path_method ::
  "string \<Rightarrow> string \<times> layout \<Rightarrow> fault + (cfg \<Rightarrow> string \<times> cfg)" where
  "lv_object_path_method name meta =
     (case index0 name of
        Inl e \<Rightarrow> Inl e
      | Inr n0 \<Rightarrow>
          if n0 = CHR ''['' then Inr hidden_lv_obj_path_generate
          else
            (case index0 (fst meta) of
               Inl e \<Rightarrow> Inl e
             | Inr a0 \<Rightarrow>
                 if a0 = CHR ''t'' then Inr thin_pool_obj_path_generate
                 else if a0 = CHR ''d'' then Inr vdo_pool_object_path_generate
                 else if a0 = CHR ''C'' \<and> py_in ''pool'' (snd meta)
                 then Inr cache_pool_obj_path_generate
                 else Inr lv_obj_path_generate))"

subsection \<open>add_config_option, add_no_notify\<close>

text \<open>
  \<^verbatim>\<open>
  def add_config_option(cmdline, key, value):
      if 'help' in cmdline:
          return cmdline
      if key in cmdline:
          for i, arg in enumerate(cmdline):
              if arg == key:
                  if len(cmdline) <= i + 1:
                      raise dbus.exceptions.DBusException("Missing value for --config option.")
                  cmdline[i + 1] += " %s" % value
                  break
      else:
          cmdline.extend([key, value])
      return cmdline
  \<close>
  The \<^verbatim>\<open>for\<close> loop is \<open>config_loop\<close>, started at index 0; the list that the Python mutates
  in place is returned updated.
\<close>

function config_loop :: "nat \<Rightarrow> string list \<Rightarrow> string \<Rightarrow> string \<Rightarrow> fault + string list" where
  "config_loop i cmdline key val =
     (if length cmdline \<le> i then Inr cmdline
      else if cmdline ! i = key then
        (if length cmdline \<le> i + 1
         then Inl (DBusException [''Missing value for --config option.''])
         else Inr (cmdline[i + 1 := cmdline ! (i + 1) @ '' '' @ val]))
      else config_loop (i + 1) cmdline key val)"
  by pat_completeness auto
termination
  by (relation "measure (\<lambda>(i, cmdline, key, val). length cmdline - i)") auto

declare config_loop.simps [simp del]

definition add_config_option :: "string list \<Rightarrow> string \<Rightarrow> string \<Rightarrow> fault + string list" where
  "add_config_option cmdline key val =
     (if ''help'' \<in> set cmdline then Inr cmdline
      else if key \<in> set cmdline then config_loop 0 cmdline key val
      else Inr (cmdline @ [key, val]))"

text \<open>
  \<^verbatim>\<open>
  def add_no_notify(cmdline):
      rv = cmdline
      if cfg.got_external_event:
          rv = add_config_option(rv, "--config", "global/notify_dbus=0")
      return rv
  \<close>
\<close>

definition add_no_notify :: "cfg \<Rightarrow> string list \<Rightarrow> fault + string list" where
  "add_no_notify c cmdline =
     (if got_external_event c
      then add_config_option cmdline ''--config'' ''global/notify_dbus=0''
      else Inr cmdline)"

subsection \<open>pv_range_append, pv_dest_ranges\<close>

text \<open>
  \<^verbatim>\<open>
  def pv_range_append(cmd, device, start, end):
      if (start, end) == (0, 0):
          cmd.append(device)
      else:
          if start != 0 and end == 0:
              cmd.append("%s:%d-" % (device, start))
          else:
              cmd.append("%s:%d-%d" % (device, start, end))

  def pv_dest_ranges(cmd, pv_dest_range_list):
      if len(pv_dest_range_list):
          for i in pv_dest_range_list:
              pv_range_append(cmd, *i)
  \<close>
\<close>

definition pv_range_append :: "string list \<Rightarrow> string \<Rightarrow> int \<Rightarrow> int \<Rightarrow> string list" where
  "pv_range_append cmd device start end =
     (if (start, end) = (0, 0) then cmd @ [device]
      else if start \<noteq> 0 \<and> end = 0 then cmd @ [device @ '':'' @ str_int start @ ''-'']
      else cmd @ [device @ '':'' @ str_int start @ ''-'' @ str_int end])"

fun pv_dest_ranges :: "string list \<Rightarrow> (string \<times> int \<times> int) list \<Rightarrow> string list" where
  "pv_dest_ranges cmd [] = cmd"
| "pv_dest_ranges cmd ((device, start, end) # rest) =
     pv_dest_ranges (pv_range_append cmd device start end) rest"

section \<open>Python built-ins used by the progress callback\<close>

subsection \<open>\<^verbatim>\<open>str.count\<close>, \<^verbatim>\<open>str.split\<close>, \<^verbatim>\<open>str.strip\<close>\<close>

fun split_on :: "char \<Rightarrow> string \<Rightarrow> string list" where
  "split_on sep [] = [[]]"
| "split_on sep (x # xs) =
     (if x = sep then [] # split_on sep xs
      else (case split_on sep xs of [] \<Rightarrow> [[x]] | f # fs \<Rightarrow> (x # f) # fs))"

text \<open>
  The code points below 256 for which \<^verbatim>\<open>str.isspace\<close> holds, and those for which the C
  macro \<^verbatim>\<open>Py_ISSPACE\<close> holds.
\<close>

definition py_isspace :: "char \<Rightarrow> bool" where
  "py_isspace ch = ((of_char ch :: nat) \<in> {9, 10, 11, 12, 13, 28, 29, 30, 31, 32, 133, 160})"

definition c_isspace :: "char \<Rightarrow> bool" where
  "c_isspace ch = ((of_char ch :: nat) \<in> {9, 10, 11, 12, 13, 32})"

definition strip_with :: "(char \<Rightarrow> bool) \<Rightarrow> string \<Rightarrow> string" where
  "strip_with sp s = rev (dropWhile sp (rev (dropWhile sp s)))"

definition strip :: "string \<Rightarrow> string" where
  "strip s = strip_with py_isspace s"

subsection \<open>Floats: binary64 values\<close>

text \<open>
  A Python \<^verbatim>\<open>float\<close> is an IEEE 754 binary64 value: \<open>Finite m e\<close> is \<open>m * 2 ^ e\<close>, and
  \<open>Finite 0 e\<close> is a zero of either sign (\<^verbatim>\<open>int\<close> does not tell the two zeros apart).
  \<open>Infinity neg\<close> is negative when \<open>neg\<close> holds.
\<close>

datatype pyfloat = Finite int int | Infinity bool | NaN

function bit_length :: "nat \<Rightarrow> nat" where
  "bit_length n = (if n = 0 then 0 else Suc (bit_length (n div 2)))"
  by pat_completeness auto
termination
  by (relation "measure id") auto

declare bit_length.simps [simp del]

text \<open>\<open>pow2_le_frac k n d\<close>: \<open>2 ^ k \<le> n / d\<close>; \<open>ilog2_frac n d\<close>: the floor of \<open>log\<^sub>2 (n / d)\<close>.\<close>

definition pow2_le_frac :: "int \<Rightarrow> nat \<Rightarrow> nat \<Rightarrow> bool" where
  "pow2_le_frac k n d = (if 0 \<le> k then d * 2 ^ nat k \<le> n else d \<le> n * 2 ^ nat (- k))"

definition ilog2_frac :: "nat \<Rightarrow> nat \<Rightarrow> int" where
  "ilog2_frac n d =
     (let k = int (bit_length n) - int (bit_length d)
      in if pow2_le_frac k n d then k else k - 1)"

text \<open>The integer nearest to \<open>n / d\<close>, a tie going to the even one.\<close>

definition round_half_even :: "nat \<Rightarrow> nat \<Rightarrow> nat" where
  "round_half_even n d =
     (let q = n div d; r = n mod d
      in if 2 * r < d then q
         else if d < 2 * r then q + 1
         else if even q then q else q + 1)"

text \<open>
  The binary64 value nearest to \<open>n / d\<close> (with the sign \<open>neg\<close>), ties to even: a 53-bit
  significand at exponent \<open>e\<close>, no exponent below \<open>-1074\<close> (subnormals), and infinity from
  \<open>2 ^ 1024\<close> on. This is the correctly rounded conversion that \<^verbatim>\<open>float(str)\<close> performs.
\<close>

definition nearest_double :: "bool \<Rightarrow> nat \<Rightarrow> nat \<Rightarrow> pyfloat" where
  "nearest_double neg n d =
     (if n = 0 then Finite 0 0
      else
        let e = max (ilog2_frac n d - 52) (- 1074);
            m = (if 0 \<le> e then round_half_even n (d * 2 ^ nat e)
                 else round_half_even (n * 2 ^ nat (- e)) d)
        in if 971 < e \<or> (e = 971 \<and> m = 2 ^ 53) then Infinity neg
           else Finite (if neg then - int m else int m) e)"

text \<open>
  \<^verbatim>\<open>round(x, 1)\<close>: infinities and NaN round to themselves; a finite \<open>x\<close> is rounded, from its
  exact value, to the nearest multiple of one tenth (ties to even), and that decimal is
  converted back to binary64.
\<close>

definition round1 :: "pyfloat \<Rightarrow> pyfloat" where
  "round1 x =
     (case x of
        Finite m e \<Rightarrow>
          (let a = nat \<bar>m\<bar>;
               t = (if 0 \<le> e then round_half_even (10 * a * 2 ^ nat e) 1
                    else round_half_even (10 * a) (2 ^ nat (- e)))
           in nearest_double (m < 0) t 10)
      | Infinity neg \<Rightarrow> Infinity neg
      | NaN \<Rightarrow> NaN)"

text \<open>
  \<^verbatim>\<open>int(x)\<close> truncates toward zero; it raises \<^verbatim>\<open>ValueError\<close> for NaN and \<^verbatim>\<open>OverflowError\<close>
  for an infinity.
\<close>

definition int_of_float :: "pyfloat \<Rightarrow> fault + int" where
  "int_of_float x =
     (case x of
        Finite m e \<Rightarrow>
          Inr (if 0 \<le> e then m * 2 ^ nat e
               else if 0 \<le> m then m div 2 ^ nat (- e)
               else - ((- m) div 2 ^ nat (- e)))
      | Infinity neg \<Rightarrow> Inl OverflowError
      | NaN \<Rightarrow> Inl ValueError)"

subsection \<open>Floats: \<^verbatim>\<open>float(str)\<close>\<close>

text \<open>
  The accepted text, after surrounding whitespace is removed, is an optional sign followed by
  \<^verbatim>\<open>inf\<close>, \<^verbatim>\<open>infinity\<close> or \<^verbatim>\<open>nan\<close> in any letter case, or by a decimal number: digits with an
  optional point (at least one digit on one side of it) and an optional exponent. Single
  underscores may separate digits. Anything else raises \<^verbatim>\<open>ValueError\<close>.
\<close>

definition digit_val :: "char \<Rightarrow> nat option" where
  "digit_val ch = map_of (zip ''0123456789'' [0, 1, 2, 3, 4, 5, 6, 7, 8, 9]) ch"

definition ascii_lower :: "char \<Rightarrow> char" where
  "ascii_lower ch =
     (case map_of (zip ''ABCDEFGHIJKLMNOPQRSTUVWXYZ'' ''abcdefghijklmnopqrstuvwxyz'') ch of
        None \<Rightarrow> ch | Some l \<Rightarrow> l)"

text \<open>
  \<open>digitpart_rest\<close> reads \<^verbatim>\<open>(["_"] digit)*\<close> after a first digit; \<open>digitpart\<close> reads
  \<^verbatim>\<open>digit (["_"] digit)*\<close>. Both return the digits and the text left over.
\<close>

fun digitpart_rest :: "nat list \<Rightarrow> string \<Rightarrow> nat list \<times> string" where
  "digitpart_rest acc [] = (acc, [])"
| "digitpart_rest acc [x] =
     (case digit_val x of Some v \<Rightarrow> (acc @ [v], []) | None \<Rightarrow> (acc, [x]))"
| "digitpart_rest acc (x # y # r) =
     (case digit_val x of
        Some v \<Rightarrow> digitpart_rest (acc @ [v]) (y # r)
      | None \<Rightarrow>
          if x = CHR ''_'' then
            (case digit_val y of
               Some v \<Rightarrow> digitpart_rest (acc @ [v]) r
             | None \<Rightarrow> (acc, x # y # r))
          else (acc, x # y # r))"

definition digitpart :: "string \<Rightarrow> (nat list \<times> string) option" where
  "digitpart s =
     (case s of
        [] \<Rightarrow> None
      | x # r \<Rightarrow> (case digit_val x of None \<Rightarrow> None | Some v \<Rightarrow> Some (digitpart_rest [v] r)))"

definition digits_value :: "nat list \<Rightarrow> nat" where
  "digits_value ds = foldl (\<lambda>a v. 10 * a + v) 0 ds"

text \<open>
  \<open>parse_number\<close>: \<^verbatim>\<open>[digitpart] "." digitpart | digitpart ["."]\<close>, with a fraction after the
  point where there is one; it returns the integer digits, the fraction digits and the
  text left over.
\<close>

definition parse_number :: "string \<Rightarrow> (nat list \<times> nat list \<times> string) option" where
  "parse_number s =
     (case s of
        [] \<Rightarrow> None
      | x # r \<Rightarrow>
          if x = CHR ''.'' then
            (case digitpart r of None \<Rightarrow> None | Some (fs, r') \<Rightarrow> Some ([], fs, r'))
          else
            (case digitpart s of
               None \<Rightarrow> None
             | Some (ds, r1) \<Rightarrow>
                 (case r1 of
                    [] \<Rightarrow> Some (ds, [], [])
                  | y # r2 \<Rightarrow>
                      if y = CHR ''.'' then
                        (case digitpart r2 of
                           None \<Rightarrow> Some (ds, [], r2)
                         | Some (fs, r3) \<Rightarrow> Some (ds, fs, r3))
                      else Some (ds, [], r1))))"

text \<open>
  \<open>parse_exponent\<close>: nothing, or \<^verbatim>\<open>("e" | "E") ["+" | "-"] digitpart\<close> up to the end of the
  text; \<open>None\<close> when text is left over.
\<close>

definition parse_exponent :: "string \<Rightarrow> int option" where
  "parse_exponent s =
     (case s of
        [] \<Rightarrow> Some 0
      | x # r \<Rightarrow>
          if x = CHR ''e'' \<or> x = CHR ''E'' then
            (let (neg, r1) =
               (case r of
                  [] \<Rightarrow> (False, r)
                | y # r0 \<Rightarrow>
                    if y = CHR ''-'' then (True, r0)
                    else if y = CHR ''+'' then (False, r0)
                    else (False, r))
             in case digitpart r1 of
                  Some (es, []) \<Rightarrow>
                    Some (if neg then - int (digits_value es) else int (digits_value es))
                | _ \<Rightarrow> None)
          else None)"

text \<open>The value \<open>m * 10 ^ e\<close> as a binary64 value.\<close>

definition decimal_to_float :: "bool \<Rightarrow> nat \<Rightarrow> int \<Rightarrow> pyfloat" where
  "decimal_to_float neg m e =
     (if 0 \<le> e then nearest_double neg (m * 10 ^ nat e) 1
      else nearest_double neg m (10 ^ nat (- e)))"

definition parse_unsigned :: "bool \<Rightarrow> string \<Rightarrow> fault + pyfloat" where
  "parse_unsigned neg s =
     (if map ascii_lower s = ''inf'' \<or> map ascii_lower s = ''infinity'' then Inr (Infinity neg)
      else if map ascii_lower s = ''nan'' then Inr NaN
      else
        (case parse_number s of
           None \<Rightarrow> Inl ValueError
         | Some (ds, fs, r) \<Rightarrow>
             (case parse_exponent r of
                None \<Rightarrow> Inl ValueError
              | Some ex \<Rightarrow>
                  Inr (decimal_to_float neg (digits_value (ds @ fs)) (ex - int (length fs))))))"

text \<open>
  \<^verbatim>\<open>float(s)\<close>. A text that is not pure ASCII is first rewritten: code points below 127 stay,
  a \<^verbatim>\<open>str.isspace\<close> character from 127 on becomes a space, and at the first other character
  the text is cut and ends in \<^verbatim>\<open>?\<close>. Then the \<^verbatim>\<open>Py_ISSPACE\<close> characters at both ends are
  removed.
\<close>

fun transform_spaces :: "string \<Rightarrow> string" where
  "transform_spaces [] = []"
| "transform_spaces (ch # r) =
     (if (of_char ch :: nat) < 127 then ch # transform_spaces r
      else if py_isspace ch then CHR '' '' # transform_spaces r
      else [CHR ''?''])"

definition to_ascii_spaces :: "string \<Rightarrow> string" where
  "to_ascii_spaces s =
     (if list_all (\<lambda>ch. (of_char ch :: nat) < 128) s then s else transform_spaces s)"

definition float_of_str :: "string \<Rightarrow> fault + pyfloat" where
  "float_of_str s =
     (case strip_with c_isspace (to_ascii_spaces s) of
        [] \<Rightarrow> Inl ValueError
      | x # r \<Rightarrow>
          if x = CHR ''-'' then parse_unsigned True r
          else if x = CHR ''+'' then parse_unsigned False r
          else parse_unsigned False (x # r))"

section \<open>background.py\<close>

subsection \<open>What the module takes from outside\<close>

text \<open>
  \<^verbatim>\<open>job_state\<close> is the object through which a job's progress is reported; the module writes its
  attribute \<^verbatim>\<open>Percent\<close>.
\<close>

record JobState =
  Percent :: int

text \<open>
  What one run of the external tool does: the complete output lines it prints while it runs,
  its exit code, and the text captured from its two streams.
\<close>

record process_run =
  p_lines :: "string list"
  p_ec :: int
  p_stdout :: string
  p_stderr :: string

text \<open>
  The surroundings of one operation: \<^verbatim>\<open>options_to_cli_args\<close> (of \<^verbatim>\<open>cmdhandler.py\<close>, not among
  the sources) as a function from the option dictionary to arguments, what the external tool
  does for an argument vector, and the two readings of \<^verbatim>\<open>time.time()\<close> in \<^verbatim>\<open>_move_merge\<close>.
\<close>

type_synonym options = "(string \<times> string) list"

record env =
  options_to_cli_args :: "options \<Rightarrow> string list"
  run_process :: "string list \<Rightarrow> process_run"
  t_start :: int
  t_ended :: int

subsection \<open>pv_move_lv_cmd\<close>

text \<open>
  \<^verbatim>\<open>
  def pv_move_lv_cmd(move_options, lv_full_name,
                      pv_source, pv_source_range, pv_dest_range_list):
      cmd = ['pvmove', '-i', '1']
      cmd.extend(options_to_cli_args(move_options))
      if lv_full_name:
          cmd.extend(['-n', lv_full_name])
      pv_range_append(cmd, pv_source, *pv_source_range)
      pv_dest_ranges(cmd, pv_dest_range_list)
      return cmd
  \<close>
  \<^verbatim>\<open>lv_full_name\<close> is \<^verbatim>\<open>None\<close> or a string; the empty string is false as well.
\<close>

definition pv_move_lv_cmd ::
  "env \<Rightarrow> options \<Rightarrow> string option \<Rightarrow> string \<Rightarrow> int \<times> int \<Rightarrow> (string \<times> int \<times> int) list
     \<Rightarrow> string list" where
  "pv_move_lv_cmd ev move_options lv_full_name pv_source pv_source_range pv_dest_range_list =
     (let cmd = [''pvmove'', ''-i'', ''1''] @ options_to_cli_args ev move_options;
          cmd = (case lv_full_name of
                   None \<Rightarrow> cmd
                 | Some n \<Rightarrow> if n = [] then cmd else cmd @ [''-n'', n]);
          cmd = pv_range_append cmd pv_source (fst pv_source_range) (snd pv_source_range)
      in pv_dest_ranges cmd pv_dest_range_list)"

subsection \<open>_move_callback\<close>

text \<open>
  \<^verbatim>\<open>
  def _move_callback(job_state, line_str):
      try:
          if line_str.count(':') == 2:
              (device, ignore, percentage) = line_str.split(':')
              job_state.Percent = int(round(
                  float(percentage.strip()[:-1]), 1))
              r = RequestEntry(
                  -1, _load_wrapper, ("_move_callback: load",), None, None, False)
              cfg.worker_q.put(r)
      except ValueError:
          log_error("Trying to parse percentage which failed for %s" % line_str)
  \<close>
  \<open>parse_percentage\<close> is the expression assigned to \<^verbatim>\<open>Percent\<close>, and \<open>unpack3\<close> the
  assignment of a list to three names, which raises \<^verbatim>\<open>ValueError\<close> for a list of another
  length. \<open>move_callback_try\<close> is the body of the \<^verbatim>\<open>try\<close>. A \<^verbatim>\<open>ValueError\<close> is caught and
  logged; any other exception leaves the function.
\<close>

definition parse_percentage :: "string \<Rightarrow> fault + int" where
  "parse_percentage percentage =
     (case float_of_str (butlast (strip percentage)) of
        Inl e \<Rightarrow> Inl e
      | Inr x \<Rightarrow> int_of_float (round1 x))"

fun unpack3 :: "'a list \<Rightarrow> ('a \<times> 'a \<times> 'a) option" where
  "unpack3 [x, y, z] = Some (x, y, z)"
| "unpack3 xs = None"

definition move_callback_try :: "JobState \<Rightarrow> string \<Rightarrow> cfg \<Rightarrow> (fault + unit) \<times> JobState \<times> cfg" where
  "move_callback_try job_state line_str c =
     (if count_list line_str CHR '':'' = 2 then
        (case unpack3 (split_on CHR '':'' line_str) of
           None \<Rightarrow> (Inl ValueError, job_state, c)
         | Some (device, ignore, percentage) \<Rightarrow>
             (case parse_percentage percentage of
                Inl e \<Rightarrow> (Inl e, job_state, c)
              | Inr p \<Rightarrow>
                  (Inr (), job_state\<lparr>Percent := p\<rparr>,
                   c\<lparr>worker_q := worker_q c @
                        [RequestEntry (- 1) load_wrapper [''_move_callback: load''] None None False]\<rparr>)))
      else (Inr (), job_state, c))"

definition move_callback :: "JobState \<Rightarrow> string \<Rightarrow> cfg \<Rightarrow> (fault + unit) \<times> JobState \<times> cfg" where
  "move_callback job_state line_str c =
     (case move_callback_try job_state line_str c of
        (Inl ValueError, js, c') \<Rightarrow>
          (Inr (), js,
           log_error (''Trying to parse percentage which failed for '' @ line_str) c')
      | r \<Rightarrow> r)"

subsection \<open>call_lvm\<close>

text \<open>
  Modelled from the spec: \<^verbatim>\<open>call_lvm\<close> (\<^verbatim>\<open>cmdhandler.py\<close> is not among the sources), the command
  runner. "Spawns the external tool ...; if a line callback is supplied, every complete
  combined-output line is delivered to it with cbData before exit ... Always waits for process
  exit", and it returns exit code, stdout and stderr. Every line is delivered, so an
  exception that leaves the callback does not end the run. The execution record of this
  invocation is the one that \<^verbatim>\<open>_move_merge\<close> itself adds to the flight recorder.
\<close>

fun deliver_lines ::
  "(JobState \<Rightarrow> string \<Rightarrow> cfg \<Rightarrow> (fault + unit) \<times> JobState \<times> cfg) \<Rightarrow> string list
     \<Rightarrow> JobState \<Rightarrow> cfg \<Rightarrow> JobState \<times> cfg" where
  "deliver_lines line_cb [] cb_data c = (cb_data, c)"
| "deliver_lines line_cb (l # ls) cb_data c =
     (case line_cb cb_data l c of (r, cb_data', c') \<Rightarrow> deliver_lines line_cb ls cb_data' c')"

definition call_lvm ::
  "env \<Rightarrow> string list \<Rightarrow> (JobState \<Rightarrow> string \<Rightarrow> cfg \<Rightarrow> (fault + unit) \<times> JobState \<times> cfg)
     \<Rightarrow> JobState \<Rightarrow> cfg \<Rightarrow> (int \<times> string \<times> string) \<times> JobState \<times> cfg" where
  "call_lvm ev command line_cb cb_data c =
     (let run = run_process ev command;
          (cb_data', c') =
            deliver_lines line_cb (p_lines run) cb_data (c\<lparr>spawned := spawned c @ [command]\<rparr>)
      in ((p_ec run, p_stdout run, p_stderr run), cb_data', c'))"

subsection \<open>_move_merge\<close>

text \<open>
  \<^verbatim>\<open>
  def _move_merge(interface_name, command, job_state):
      meta = LvmExecutionMeta(time.time(), 0, command)
      cfg.flightrecorder.add(meta)
      ec, stdout, stderr = call_lvm(command, line_cb=_move_callback,
                                      cb_data=job_state)
      ended = time.time()
      meta.completed(ended, ec, stdout, stderr)
      if ec == 0:
          job_state.Percent = 100
      else:
          raise dbus.exceptions.DBusException(
              interface_name,
              'Exit code %s, stderr = %s' % (str(ec), stderr))
      cfg.load()
      return '/'
  \<close>
  The new \<^verbatim>\<open>meta\<close> object is put at the next free address of the store, and \<^verbatim>\<open>completed\<close>
  updates it there.
\<close>

definition new_meta :: "LvmExecutionMeta \<Rightarrow> cfg \<Rightarrow> nat \<times> cfg" where
  "new_meta m c = (next_ref c, c\<lparr>metas := (metas c)(next_ref c \<mapsto> m), next_ref := next_ref c + 1\<rparr>)"

definition meta_completed :: "nat \<Rightarrow> int \<Rightarrow> int \<Rightarrow> string \<Rightarrow> string \<Rightarrow> cfg \<Rightarrow> cfg" where
  "meta_completed r end_time ec out err c =
     (case metas c r of
        None \<Rightarrow> c
      | Some m \<Rightarrow> c\<lparr>metas := (metas c)(r \<mapsto> completed end_time ec out err m)\<rparr>)"

definition move_merge ::
  "env \<Rightarrow> string \<Rightarrow> string list \<Rightarrow> JobState \<Rightarrow> cfg \<Rightarrow> (fault + string) \<times> JobState \<times> cfg" where
  "move_merge ev interface_name command job_state c =
     (let (meta, c1) =
            new_meta \<lparr>m_start = t_start ev, m_ended = 0, m_cmd = command,
                      m_ec = None, m_stdout = None, m_stderr = None\<rparr> c;
          c2 = c1\<lparr>flightrecorder := flightrecorder_add meta (flightrecorder c1)\<rparr>;
          ((ec, out, err), js, c3) = call_lvm ev command move_callback job_state c2;
          c4 = meta_completed meta (t_ended ev) ec out err c3
      in if ec = 0 then (Inr ''/'', js\<lparr>Percent := 100\<rparr>, load c4)
         else
           (Inl (DBusException
                   [interface_name, ''Exit code '' @ str_int ec @ '', stderr = '' @ err]),
            js, c4))"

subsection \<open>move\<close>

text \<open>
  \<^verbatim>\<open>
  def move(interface_name, lv_name, pv_src_obj, pv_source_range,
              pv_dests_and_ranges, move_options, job_state):
      pv_dests = []
      pv_src = cfg.om.get_object_by_path(pv_src_obj)
      if pv_src:
          if len(pv_dests_and_ranges):
              for pr in pv_dests_and_ranges:
                  pv_dbus_obj = cfg.om.get_object_by_path(pr[0])
                  if not pv_dbus_obj:
                      raise dbus.exceptions.DBusException(
                          interface_name,
                          'PV Destination (%s) not found' % pr[0])
                  pv_dests.append((pv_dbus_obj.lvm_id, pr[1], pr[2]))
          cmd = pv_move_lv_cmd(move_options, lv_name, pv_src.lvm_id,
                               pv_source_range, pv_dests)
          return _move_merge(interface_name, cmd, job_state)
      else:
          raise dbus.exceptions.DBusException(
              interface_name, 'pv_src_obj (%s) not found' % pv_src_obj)
  \<close>
  \<open>resolve_dests\<close> is the \<^verbatim>\<open>for\<close> loop: it stops at the first destination that does not resolve.
\<close>

fun resolve_dests ::
  "cfg \<Rightarrow> string \<Rightarrow> (string \<times> int \<times> int) list \<Rightarrow> (string \<times> int \<times> int) list
     \<Rightarrow> fault + (string \<times> int \<times> int) list" where
  "resolve_dests c interface_name pv_dests [] = Inr pv_dests"
| "resolve_dests c interface_name pv_dests ((path, start, end) # prs) =
     (case om c path of
        None \<Rightarrow> Inl (DBusException [interface_name, ''PV Destination ('' @ path @ '') not found''])
      | Some pv_dbus_obj \<Rightarrow>
          resolve_dests c interface_name (pv_dests @ [(lvm_id pv_dbus_obj, start, end)]) prs)"

definition move ::
  "env \<Rightarrow> string \<Rightarrow> string option \<Rightarrow> string \<Rightarrow> int \<times> int \<Rightarrow> (string \<times> int \<times> int) list
     \<Rightarrow> options \<Rightarrow> JobState \<Rightarrow> cfg \<Rightarrow> (fault + string) \<times> JobState \<times> cfg" where
  "move ev interface_name lv_name pv_src_obj pv_source_range pv_dests_and_ranges move_options
        job_state c =
     (case om c pv_src_obj of
        Some pv_src \<Rightarrow>
          (case resolve_dests c interface_name [] pv_dests_and_ranges of
             Inl e \<Rightarrow> (Inl e, job_state, c)
           | Inr pv_dests \<Rightarrow>
               move_merge ev interface_name
                 (pv_move_lv_cmd ev move_options lv_name (lvm_id pv_src) pv_source_range pv_dests)
                 job_state c)
      | None \<Rightarrow>
          (Inl (DBusException [interface_name, ''pv_src_obj ('' @ pv_src_obj @ '') not found'']),
           job_state, c))"

section \<open>Observing runs\<close>

subsection \<open>Sequences of path allocations\<close>

text \<open>
  The eight entity categories, each with its generator, its prefix and its counter.
  \<open>allocations\<close> runs a sequence of generator calls, in order, from a state, and pairs each
  call's category with the path it returned.
\<close>

datatype category = Pv | Vg | Lv | ThinPool | VdoPool | CachePool | HiddenLv | Job

fun generator :: "category \<Rightarrow> cfg \<Rightarrow> string \<times> cfg" where
  "generator Pv = pv_obj_path_generate"
| "generator Vg = vg_obj_path_generate"
| "generator Lv = lv_obj_path_generate"
| "generator ThinPool = thin_pool_obj_path_generate"
| "generator VdoPool = vdo_pool_object_path_generate"
| "generator CachePool = cache_pool_obj_path_generate"
| "generator HiddenLv = hidden_lv_obj_path_generate"
| "generator Job = job_obj_path_generate"

fun prefix_of :: "category \<Rightarrow> cfg \<Rightarrow> string" where
  "prefix_of Pv = PV_OBJ_PATH"
| "prefix_of Vg = VG_OBJ_PATH"
| "prefix_of Lv = LV_OBJ_PATH"
| "prefix_of ThinPool = THIN_POOL_PATH"
| "prefix_of VdoPool = VDO_POOL_PATH"
| "prefix_of CachePool = CACHE_POOL_PATH"
| "prefix_of HiddenLv = HIDDEN_LV_PATH"
| "prefix_of Job = JOB_OBJ_PATH"

fun counter_of :: "category \<Rightarrow> cfg \<Rightarrow> int" where
  "counter_of Pv = pv_id"
| "counter_of Vg = vg_id"
| "counter_of Lv = lv_id"
| "counter_of ThinPool = thin_id"
| "counter_of VdoPool = vdo_id"
| "counter_of CachePool = cache_pool_id"
| "counter_of HiddenLv = hidden_lv"
| "counter_of Job = job_id"

fun allocations :: "category list \<Rightarrow> cfg \<Rightarrow> (category \<times> string) list \<times> cfg" where
  "allocations [] c = ([], c)"
| "allocations (k # ks) c =
     (case generator k c of
        (path, c') \<Rightarrow> (case allocations ks c' of (ps, c'') \<Rightarrow> ((k, path) # ps, c'')))"

definition paths_of :: "category \<Rightarrow> (category \<times> string) list \<Rightarrow> string list" where
  "paths_of k ps = map snd (filter (\<lambda>p. fst p = k) ps)"

subsection \<open>The values of Percent during an operation\<close>




subsection \<open>An example state\<close>

text \<open>
  A daemon state with the path prefixes of \<^verbatim>\<open>lvmdbusd\<close>, all counters at zero, one physical
  volume in the object graph, an empty flight recorder of capacity 16 and nothing yet logged
  or run; and surroundings in which no options are given and the external tool prints one
  progress line and exits with code 0.
\<close>

definition example_cfg :: cfg where
  "example_cfg =
     \<lparr>PV_OBJ_PATH = ''/com/redhat/lvmdbus1/Pv'',
      VG_OBJ_PATH = ''/com/redhat/lvmdbus1/Vg'',
      LV_OBJ_PATH = ''/com/redhat/lvmdbus1/Lv'',
      THIN_POOL_PATH = ''/com/redhat/lvmdbus1/ThinPool'',
      VDO_POOL_PATH = ''/com/redhat/lvmdbus1/VdoPool'',
      CACHE_POOL_PATH = ''/com/redhat/lvmdbus1/CachePool'',
      HIDDEN_LV_PATH = ''/com/redhat/lvmdbus1/HiddenLv'',
      JOB_OBJ_PATH = ''/com/redhat/lvmdbus1/Job'',
      pv_id = 0, vg_id = 0, lv_id = 0, thin_id = 0, vdo_id = 0, cache_pool_id = 0,
      hidden_lv = 0, job_id = 0,
      got_external_event = True,
      om = [''/com/redhat/lvmdbus1/Pv/0'' \<mapsto> \<lparr>lvm_id = ''/dev/sda''\<rparr>],
      worker_q = [],
      flightrecorder = \<lparr>fr_size = 16, fr_queue = []\<rparr>,
      loads = 0,
      metas = Map.empty,
      next_ref = 0,
      stdout_log = [],
      spawned = []\<rparr>"

definition example_env :: "string list \<Rightarrow> int \<Rightarrow> string \<Rightarrow> env" where
  "example_env lines ec err =
     \<lparr>options_to_cli_args = (\<lambda>opts. []),
      run_process = (\<lambda>command. \<lparr>p_lines = lines, p_ec = ec, p_stdout = [], p_stderr = err\<rparr>),
      t_start = 1000, t_ended = 1060\<rparr>"

subsection \<open>Reading a decimal numeral back\<close>

text \<open>The number that a string of decimal digits denotes, the inverse of \<open>str_nat\<close>.\<close>

definition numeral_value :: "string \<Rightarrow> nat" where
  "numeral_value s =
     foldl (\<lambda>a ch. 10 * a + (case digit_val ch of None \<Rightarrow> 0 | Some v \<Rightarrow> v)) 0 s"

subsection \<open>The state in which the command runs\<close>

text \<open>
  \<open>recorded ev command c\<close> is the state after the first two statements of \<^verbatim>\<open>_move_merge\<close>:
  the execution record has been created and added to the flight recorder.
\<close>

definition recorded :: "env \<Rightarrow> string list \<Rightarrow> cfg \<Rightarrow> cfg" where
  "recorded ev command c =
     (let c1 = snd (new_meta \<lparr>m_start = t_start ev, m_ended = 0, m_cmd = command,
                             m_ec = None, m_stdout = None, m_stderr = None\<rparr> c)
      in c1\<lparr>flightrecorder := flightrecorder_add (next_ref c) (flightrecorder c1)\<rparr>)"



subsection \<open>The percentage that a line states\<close>





subsection \<open>The value of a float\<close>






section \<open>Basic facts\<close>

text \<open>The recursive equations of the loops, split by their tests, for rewriting.\<close>

lemma str_nat_small [simp]: "n < 10 \<Longrightarrow> str_nat n = [digit_char n]"
  by (subst str_nat.simps) simp

lemma str_nat_large [simp]:
  "10 \<le> n \<Longrightarrow> str_nat n = str_nat (n div 10) @ [digit_char (n mod 10)]"
  by (subst str_nat.simps) simp

lemma bit_length_0 [simp]: "bit_length 0 = 0"
  by (subst bit_length.simps) simp

lemma bit_length_pos [simp]: "0 < n \<Longrightarrow> bit_length n = Suc (bit_length (n div 2))"
  by (subst bit_length.simps) simp

section \<open>add_config_option and add_no_notify\<close>

text \<open>
  The loop finds the first occurrence of the key: the elements before it are left alone,
  and the element after it gets the value appended after a space.
\<close>

lemma config_loop_found:
  assumes "key \<notin> set pre"
  shows "config_loop (length front) (front @ pre @ key # v # post) key val =
           Inr (front @ pre @ key # (v @ '' '' @ val) # post)"
  using assms
proof (induction pre arbitrary: front)
  case Nil
  show ?case
    by (subst config_loop.simps) (simp add: nth_append list_update_append)
next
  case (Cons a pre)
  then have ak: "a \<noteq> key" and pk: "key \<notin> set pre" by auto
  have "config_loop (length front) (front @ (a # pre) @ key # v # post) key val =
        config_loop (length (front @ [a])) ((front @ [a]) @ pre @ key # v # post) key val"
    using ak by (subst config_loop.simps) (simp add: nth_append)
  also have "\<dots> = Inr ((front @ [a]) @ pre @ key # (v @ '' '' @ val) # post)"
    using Cons.IH [OF pk] .
  finally show ?case by simp
qed

lemma config_loop_missing_value:
  assumes "key \<notin> set pre"
  shows "config_loop (length front) (front @ pre @ [key]) key val =
           Inl (DBusException [''Missing value for --config option.''])"
  using assms
proof (induction pre arbitrary: front)
  case Nil
  show ?case
    by (subst config_loop.simps) (simp add: nth_append)
next
  case (Cons a pre)
  then have ak: "a \<noteq> key" and pk: "key \<notin> set pre" by auto
  have "config_loop (length front) (front @ (a # pre) @ [key]) key val =
        config_loop (length (front @ [a])) ((front @ [a]) @ pre @ [key]) key val"
    using ak by (subst config_loop.simps) (simp add: nth_append)
  also have "\<dots> = Inl (DBusException [''Missing value for --config option.''])"
    using Cons.IH [OF pk] .
  finally show ?case by simp
qed

lemma add_config_option_found:
  assumes "''help'' \<notin> set (pre @ key # v # post)" and "key \<notin> set pre"
  shows "add_config_option (pre @ key # v # post) key val =
           Inr (pre @ key # (v @ '' '' @ val) # post)"
  using assms config_loop_found [of key pre "[]" v post val]
  by (simp add: add_config_option_def)

lemma add_config_option_missing_value:
  assumes "''help'' \<notin> set (pre @ [key])" and "key \<notin> set pre"
  shows "add_config_option (pre @ [key]) key val =
           Inl (DBusException [''Missing value for --config option.''])"
  using assms config_loop_missing_value [of key pre "[]" val]
  by (simp add: add_config_option_def)

subsection \<open>Claim C10\<close>

text \<open>
  C10. If the string \<^verbatim>\<open>help\<close> is an element of the command line, \<open>add_config_option\<close>
  returns the list unchanged, whatever the key and the value, and so \<open>add_no_notify\<close> adds no
  \<^verbatim>\<open>--config\<close> option to it, whether or not an external event has been seen.
\<close>

theorem help_leaves_cmdline_unchanged:
  assumes "''help'' \<in> set cmdline"
  shows "add_config_option cmdline key val = Inr cmdline \<and> add_no_notify c cmdline = Inr cmdline"
  using assms by (simp add: add_config_option_def add_no_notify_def)

text \<open>
  C10 at a command line that holds \<^verbatim>\<open>help\<close> and a \<^verbatim>\<open>--config\<close> option, in a state where an
  external event has been seen.
\<close>

theorem help_leaves_cmdline_unchanged_witness:
  "''help'' \<in> set [''lvm'', ''help'', ''--config'', ''devices/dir=/dev'']
   \<and> got_external_event example_cfg
   \<and> add_config_option [''lvm'', ''help'', ''--config'', ''devices/dir=/dev'']
        ''--config'' ''global/notify_dbus=0''
      = Inr [''lvm'', ''help'', ''--config'', ''devices/dir=/dev'']
   \<and> add_no_notify example_cfg [''lvm'', ''help'', ''--config'', ''devices/dir=/dev'']
      = Inr [''lvm'', ''help'', ''--config'', ''devices/dir=/dev'']"
proof -
  have h: "''help'' \<in> set [''lvm'', ''help'', ''--config'', ''devices/dir=/dev'']" by simp
  show ?thesis
    using h help_leaves_cmdline_unchanged [OF h, of "''--config''" "''global/notify_dbus=0''" example_cfg]
    by (simp add: example_cfg_def)
qed

subsection \<open>Claim C8\<close>

text \<open>
  C8 as stated fails: an external event has been seen and the command line has no
  \<^verbatim>\<open>--config\<close>, yet the pair is not appended, because the command line holds \<^verbatim>\<open>help\<close>.
\<close>

theorem add_no_notify_counterexample:
  "got_external_event example_cfg
   \<and> ''--config'' \<notin> set [''lvm'', ''help'']
   \<and> add_no_notify example_cfg [''lvm'', ''help'']
        \<noteq> Inr ([''lvm'', ''help''] @ [''--config'', ''global/notify_dbus=0''])"
  by (simp add: example_cfg_def add_no_notify_def add_config_option_def)

text \<open>
  C8, amended. When no external event has been seen, or the command line holds \<^verbatim>\<open>help\<close>,
  \<open>add_no_notify\<close> returns the command line unchanged. Otherwise: without \<^verbatim>\<open>--config\<close> in it,
  the pair \<^verbatim>\<open>--config\<close>, \<^verbatim>\<open>global/notify_dbus=0\<close> is appended; with a \<^verbatim>\<open>--config\<close> that has an
  element after it, the setting is joined with a space to the element after the first
  \<^verbatim>\<open>--config\<close>; and when the first \<^verbatim>\<open>--config\<close> is the last element, a \<^verbatim>\<open>DBusException\<close> is
  raised.
\<close>

theorem add_no_notify_cases:
  "(\<not> got_external_event c \<longrightarrow> add_no_notify c cmdline = Inr cmdline)
   \<and> (got_external_event c \<and> ''help'' \<in> set cmdline \<longrightarrow> add_no_notify c cmdline = Inr cmdline)
   \<and> (got_external_event c \<and> ''help'' \<notin> set cmdline \<and> ''--config'' \<notin> set cmdline \<longrightarrow>
        add_no_notify c cmdline = Inr (cmdline @ [''--config'', ''global/notify_dbus=0'']))
   \<and> (got_external_event c \<and> ''help'' \<notin> set cmdline \<and> ''--config'' \<notin> set pre
        \<and> cmdline = pre @ ''--config'' # v # post \<longrightarrow>
        add_no_notify c cmdline =
          Inr (pre @ ''--config'' # (v @ '' '' @ ''global/notify_dbus=0'') # post))
   \<and> (got_external_event c \<and> ''help'' \<notin> set cmdline \<and> ''--config'' \<notin> set pre
        \<and> cmdline = pre @ [''--config''] \<longrightarrow>
        add_no_notify c cmdline = Inl (DBusException [''Missing value for --config option.'']))"
proof (intro conjI impI)
  assume "\<not> got_external_event c"
  then show "add_no_notify c cmdline = Inr cmdline"
    by (simp add: add_no_notify_def)
next
  assume "got_external_event c \<and> ''help'' \<in> set cmdline"
  then show "add_no_notify c cmdline = Inr cmdline"
    by (simp add: add_no_notify_def add_config_option_def)
next
  assume "got_external_event c \<and> ''help'' \<notin> set cmdline \<and> ''--config'' \<notin> set cmdline"
  then show "add_no_notify c cmdline = Inr (cmdline @ [''--config'', ''global/notify_dbus=0''])"
    by (simp add: add_no_notify_def add_config_option_def)
next
  assume a: "got_external_event c \<and> ''help'' \<notin> set cmdline \<and> ''--config'' \<notin> set pre
        \<and> cmdline = pre @ ''--config'' # v # post"
  then have "add_config_option (pre @ ''--config'' # v # post) ''--config'' ''global/notify_dbus=0''
      = Inr (pre @ ''--config'' # (v @ '' '' @ ''global/notify_dbus=0'') # post)"
    by (intro add_config_option_found) auto
  with a show "add_no_notify c cmdline =
          Inr (pre @ ''--config'' # (v @ '' '' @ ''global/notify_dbus=0'') # post)"
    by (simp add: add_no_notify_def)
next
  assume a: "got_external_event c \<and> ''help'' \<notin> set cmdline \<and> ''--config'' \<notin> set pre
        \<and> cmdline = pre @ [''--config'']"
  then have "add_config_option (pre @ [''--config'']) ''--config'' ''global/notify_dbus=0''
      = Inl (DBusException [''Missing value for --config option.''])"
    by (intro add_config_option_missing_value) auto
  with a show "add_no_notify c cmdline = Inl (DBusException [''Missing value for --config option.''])"
    by (simp add: add_no_notify_def)
qed

text \<open>
  C8, amended, at four command lines: no event seen; event seen and no \<^verbatim>\<open>--config\<close>; event
  seen and a \<^verbatim>\<open>--config\<close> with a value; event seen and \<^verbatim>\<open>--config\<close> as the last element.
\<close>

theorem add_no_notify_cases_witness:
  "add_no_notify (example_cfg\<lparr>got_external_event := False\<rparr>) [''lvm'', ''pvs''] = Inr [''lvm'', ''pvs'']
   \<and> add_no_notify example_cfg [''lvm'', ''pvs'']
       = Inr [''lvm'', ''pvs'', ''--config'', ''global/notify_dbus=0'']
   \<and> add_no_notify example_cfg [''lvm'', ''pvs'', ''--config'', ''devices/dir=/dev'', ''-v'']
       = Inr [''lvm'', ''pvs'', ''--config'', ''devices/dir=/dev global/notify_dbus=0'', ''-v'']
   \<and> add_no_notify example_cfg [''lvm'', ''pvs'', ''--config'']
       = Inl (DBusException [''Missing value for --config option.''])"
  using add_no_notify_cases [of "example_cfg\<lparr>got_external_event := False\<rparr>" "[''lvm'', ''pvs'']"]
    add_no_notify_cases [of example_cfg "[''lvm'', ''pvs'']"]
    add_no_notify_cases [of example_cfg "[''lvm'', ''pvs'', ''--config'', ''devices/dir=/dev'', ''-v'']"
       "[''lvm'', ''pvs'']" "''devices/dir=/dev''" "[''-v'']"]
    add_no_notify_cases [of example_cfg "[''lvm'', ''pvs'', ''--config'']" "[''lvm'', ''pvs'']"]
  by (simp add: example_cfg_def)

section \<open>Object paths\<close>

subsection \<open>Decimal numerals are unambiguous\<close>

lemma digit_val_digit_char: "d < 10 \<Longrightarrow> digit_val (digit_char d) = Some d"
proof -
  assume "d < 10"
  then have "d = 0 \<or> d = 1 \<or> d = 2 \<or> d = 3 \<or> d = 4 \<or> d = 5 \<or> d = 6
    \<or> d = 7 \<or> d = 8 \<or> d = 9"
    by arith
  then show ?thesis
    by (elim disjE) (simp_all add: digit_char_def digit_val_def)
qed

lemma digit_char_not_minus: "d < 10 \<Longrightarrow> digit_char d \<noteq> CHR ''-''"
  using digit_val_digit_char [of d] by (auto simp: digit_val_def)

lemma numeral_value_str_nat: "numeral_value (str_nat n) = n"
proof (induction n rule: str_nat.induct)
  case (1 n)
  show ?case
  proof (cases "n < 10")
    case True
    then show ?thesis
      by (simp add: numeral_value_def digit_val_digit_char)
  next
    case False
    then have "numeral_value (str_nat (n div 10)) = n div 10"
      using "1.IH" by simp
    with False show ?thesis
      by (simp add: numeral_value_def digit_val_digit_char)
  qed
qed

lemma str_nat_inject: "str_nat m = str_nat n \<Longrightarrow> m = n"
  by (metis numeral_value_str_nat)

lemma str_nat_digits: "CHR ''-'' \<notin> set (str_nat n)"
proof (induction n rule: str_nat.induct)
  case (1 n)
  show ?case
  proof (cases "n < 10")
    case True
    then show ?thesis
      using digit_char_not_minus [of n] by auto
  next
    case False
    then have "CHR ''-'' \<notin> set (str_nat (n div 10))"
      using "1.IH" by simp
    moreover have "digit_char (n mod 10) \<noteq> CHR ''-''"
      by (rule digit_char_not_minus) simp
    ultimately show ?thesis
      using False by auto
  qed
qed

lemma str_nat_not_minus: "str_nat n \<noteq> CHR ''-'' # s"
  using str_nat_digits [of n] by (metis list.set_intros(1))

lemma str_int_inject:
  assumes "str_int i = str_int j"
  shows "i = j"
proof (cases "i < 0")
  case i: True
  show ?thesis
  proof (cases "j < 0")
    case True
    with i assms have "str_nat (nat (- i)) = str_nat (nat (- j))"
      by (simp add: str_int_def)
    then have "nat (- i) = nat (- j)"
      by (rule str_nat_inject)
    with i True show ?thesis by simp
  next
    case False
    with i assms have "str_nat (nat j) = CHR ''-'' # str_nat (nat (- i))"
      by (simp add: str_int_def)
    then show ?thesis
      using str_nat_not_minus by blast
  qed
next
  case i: False
  show ?thesis
  proof (cases "j < 0")
    case True
    with i assms have "str_nat (nat i) = CHR ''-'' # str_nat (nat (- j))"
      by (simp add: str_int_def)
    then show ?thesis
      using str_nat_not_minus by blast
  next
    case False
    with i assms have "str_nat (nat i) = str_nat (nat j)"
      by (simp add: str_int_def)
    then have "nat i = nat j"
      by (rule str_nat_inject)
    with i False show ?thesis by simp
  qed
qed

subsection \<open>One call of a generator\<close>

lemma generator_path: "fst (generator k c) = prefix_of k c @ ''/'' @ str_int (counter_of k c)"
  by (cases k)
    (simp_all add: pv_obj_path_generate_def vg_obj_path_generate_def lv_obj_path_generate_def
      thin_pool_obj_path_generate_def vdo_pool_object_path_generate_def
      cache_pool_obj_path_generate_def hidden_lv_obj_path_generate_def job_obj_path_generate_def)

lemma generator_counter:
  "counter_of k' (snd (generator k c)) = (if k' = k then counter_of k c + 1 else counter_of k' c)"
  by (cases k; cases k')
    (simp_all add: pv_obj_path_generate_def vg_obj_path_generate_def lv_obj_path_generate_def
      thin_pool_obj_path_generate_def vdo_pool_object_path_generate_def
      cache_pool_obj_path_generate_def hidden_lv_obj_path_generate_def job_obj_path_generate_def)

lemma generator_prefix: "prefix_of k' (snd (generator k c)) = prefix_of k' c"
  by (cases k; cases k')
    (simp_all add: pv_obj_path_generate_def vg_obj_path_generate_def lv_obj_path_generate_def
      thin_pool_obj_path_generate_def vdo_pool_object_path_generate_def
      cache_pool_obj_path_generate_def hidden_lv_obj_path_generate_def job_obj_path_generate_def)

subsection \<open>Sequences of calls\<close>

lemma allocations_Cons:
  "allocations (k # ks) c =
     ((k, fst (generator k c)) # fst (allocations ks (snd (generator k c))),
      snd (allocations ks (snd (generator k c))))"
  by (simp split: prod.splits)

lemma allocations_counter:
  "counter_of k (snd (allocations ks c)) = counter_of k c + int (count_list ks k)"
proof (induction ks arbitrary: c)
  case Nil
  show ?case by simp
next
  case (Cons k0 ks)
  show ?case
    unfolding allocations_Cons using Cons.IH [of "snd (generator k0 c)"]
    by (simp add: generator_counter)
qed

lemma allocations_paths:
  "paths_of k (fst (allocations ks c)) =
     map (\<lambda>i. prefix_of k c @ ''/'' @ str_int (counter_of k c + int i)) [0..<count_list ks k]"
proof (induction ks arbitrary: c)
  case Nil
  show ?case by (simp add: paths_of_def)
next
  case (Cons k0 ks)
  let ?c' = "snd (generator k0 c)"
  have IH: "paths_of k (fst (allocations ks ?c')) =
     map (\<lambda>i. prefix_of k c @ ''/'' @ str_int (counter_of k ?c' + int i)) [0..<count_list ks k]"
    using Cons.IH [of ?c'] by (simp add: generator_prefix)
  show ?case
  proof (cases "k0 = k")
    case True
    have "paths_of k (fst (allocations (k0 # ks) c)) =
            fst (generator k c) # paths_of k (fst (allocations ks ?c'))"
      unfolding allocations_Cons using True by (simp add: paths_of_def)
    also have "\<dots> = (prefix_of k c @ ''/'' @ str_int (counter_of k c + int 0)) #
        map (\<lambda>i. prefix_of k c @ ''/'' @ str_int (counter_of k c + int (Suc i))) [0..<count_list ks k]"
      using True IH by (simp add: generator_path generator_counter add.assoc)
    also have "\<dots> = map (\<lambda>i. prefix_of k c @ ''/'' @ str_int (counter_of k c + int i))
        [0..<Suc (count_list ks k)]"
      by (simp only: map_upt_Suc)
    finally show ?thesis using True by simp
  next
    case False
    have "paths_of k (fst (allocations (k0 # ks) c)) = paths_of k (fst (allocations ks ?c'))"
      unfolding allocations_Cons using False by (simp add: paths_of_def)
    with False IH show ?thesis
      by (simp add: generator_counter)
  qed
qed

subsection \<open>Claim C4\<close>

text \<open>
  C4. Take any state and any sequence of calls of the eight path generators, in any
  interleaving. The calls for one category \<open>k\<close> return, in order, the category's prefix,
  a slash, and the decimal numerals of the consecutive integers that start at the category's
  counter: each integer exceeds the one before by one. No two of these paths are equal.
  Afterwards the category's counter has grown by exactly the number of its calls, whatever
  the calls for other categories were, so it never decreases.
\<close>

theorem allocations_strictly_increasing:
  "paths_of k (fst (allocations ks c)) =
     map (\<lambda>i. prefix_of k c @ ''/'' @ str_int (counter_of k c + int i)) [0..<count_list ks k]
   \<and> distinct (paths_of k (fst (allocations ks c)))
   \<and> counter_of k (snd (allocations ks c)) = counter_of k c + int (count_list ks k)
   \<and> counter_of k c \<le> counter_of k (snd (allocations ks c))"
proof -
  have "inj_on (\<lambda>i. prefix_of k c @ ''/'' @ str_int (counter_of k c + int i))
          (set [0..<count_list ks k])"
    by (rule inj_onI) (auto dest: str_int_inject)
  then have "distinct (paths_of k (fst (allocations ks c)))"
    unfolding allocations_paths by (simp add: distinct_map)
  then show ?thesis
    by (simp add: allocations_paths allocations_counter)
qed

text \<open>
  C4 at a run that interleaves three allocations of physical-volume paths with allocations
  of a logical-volume path and a job path.
\<close>

theorem allocations_strictly_increasing_witness:
  "paths_of Pv (fst (allocations [Pv, Lv, Pv, Job, Pv] example_cfg)) =
     [''/com/redhat/lvmdbus1/Pv/0'', ''/com/redhat/lvmdbus1/Pv/1'', ''/com/redhat/lvmdbus1/Pv/2'']
   \<and> distinct (paths_of Pv (fst (allocations [Pv, Lv, Pv, Job, Pv] example_cfg)))
   \<and> counter_of Pv (snd (allocations [Pv, Lv, Pv, Job, Pv] example_cfg)) = 3"
  using allocations_strictly_increasing [of Pv "[Pv, Lv, Pv, Job, Pv]" example_cfg]
  by (simp add: example_cfg_def str_int_def digit_char_def)

section \<open>lv_object_path_method\<close>

text \<open>
  Two functions on the state differ as soon as some field of their results differs in
  some state. The five generators that \<open>lv_object_path_method\<close> can return are five
  different functions: each advances a counter that the others leave alone.
\<close>

lemma generators_differ:
  assumes "sel (snd (f c)) \<noteq> sel (snd (g c))"
  shows "f \<noteq> g"
  using assms by auto

lemma lv_generators_distinct:
  "distinct [hidden_lv_obj_path_generate, thin_pool_obj_path_generate,
     vdo_pool_object_path_generate, cache_pool_obj_path_generate, lv_obj_path_generate]"
proof -
  have hidden: "hidden_lv_obj_path_generate \<noteq> g"
    if "\<And>c. hidden_lv (snd (g c)) = hidden_lv c" for g
    using that [of example_cfg]
      generators_differ [of hidden_lv hidden_lv_obj_path_generate example_cfg g]
    by (simp add: hidden_lv_obj_path_generate_def)
  have thin: "thin_pool_obj_path_generate \<noteq> g"
    if "\<And>c. thin_id (snd (g c)) = thin_id c" for g
    using that [of example_cfg]
      generators_differ [of thin_id thin_pool_obj_path_generate example_cfg g]
    by (simp add: thin_pool_obj_path_generate_def)
  have vdo: "vdo_pool_object_path_generate \<noteq> g"
    if "\<And>c. vdo_id (snd (g c)) = vdo_id c" for g
    using that [of example_cfg]
      generators_differ [of vdo_id vdo_pool_object_path_generate example_cfg g]
    by (simp add: vdo_pool_object_path_generate_def)
  have cache: "cache_pool_obj_path_generate \<noteq> g"
    if "\<And>c. cache_pool_id (snd (g c)) = cache_pool_id c" for g
    using that [of example_cfg]
      generators_differ [of cache_pool_id cache_pool_obj_path_generate example_cfg g]
    by (simp add: cache_pool_obj_path_generate_def)
  show ?thesis
    using hidden [of thin_pool_obj_path_generate] hidden [of vdo_pool_object_path_generate]
      hidden [of cache_pool_obj_path_generate] hidden [of lv_obj_path_generate]
      thin [of vdo_pool_object_path_generate] thin [of cache_pool_obj_path_generate]
      thin [of lv_obj_path_generate]
      vdo [of cache_pool_obj_path_generate] vdo [of lv_obj_path_generate]
      cache [of lv_obj_path_generate]
    by (simp add: thin_pool_obj_path_generate_def vdo_pool_object_path_generate_def
        cache_pool_obj_path_generate_def lv_obj_path_generate_def)
qed

subsection \<open>Claim C3\<close>

text \<open>
  C3 as stated fails: \<open>lv_object_path_method\<close> is not total. For the empty name the test
  \<^verbatim>\<open>name[0] == '['\<close> raises \<^verbatim>\<open>IndexError\<close>, and no generator is returned.
\<close>

theorem lv_object_path_method_counterexample:
  "lv_object_path_method [] (''-wi-a-----'', LayoutStr ''linear'') = Inl IndexError"
  by (simp add: lv_object_path_method_def index0_def)

text \<open>
  C3, amended. For every non-empty name and every non-empty attribute string,
  \<open>lv_object_path_method\<close> returns one generator, a function of its arguments alone, chosen
  in this order of precedence: the hidden-LV generator when the name starts with \<^verbatim>\<open>[\<close>; else
  the thin-pool generator when the attribute string starts with \<^verbatim>\<open>t\<close>; else the vdo-pool
  generator when it starts with \<^verbatim>\<open>d\<close>; else the cache-pool generator when it starts with
  \<^verbatim>\<open>C\<close> and \<^verbatim>\<open>pool\<close> is in the layout; else the plain LV generator. A name that starts with
  \<^verbatim>\<open>[\<close> gives the hidden-LV generator whatever the attributes are, even empty ones. The five
  generators are pairwise different, so exactly one of them is returned. For an empty name,
  and for an empty attribute string with a name that does not start with \<^verbatim>\<open>[\<close>, the function
  raises \<^verbatim>\<open>IndexError\<close>.
\<close>

theorem lv_object_path_method_precedence:
  "lv_object_path_method (n0 # ns) (a0 # as, lay) =
     Inr (if n0 = CHR ''['' then hidden_lv_obj_path_generate
          else if a0 = CHR ''t'' then thin_pool_obj_path_generate
          else if a0 = CHR ''d'' then vdo_pool_object_path_generate
          else if a0 = CHR ''C'' \<and> py_in ''pool'' lay then cache_pool_obj_path_generate
          else lv_obj_path_generate)
   \<and> lv_object_path_method (CHR ''['' # ns) meta = Inr hidden_lv_obj_path_generate
   \<and> distinct [hidden_lv_obj_path_generate, thin_pool_obj_path_generate,
        vdo_pool_object_path_generate, cache_pool_obj_path_generate, lv_obj_path_generate]
   \<and> lv_object_path_method [] meta = Inl IndexError
   \<and> (n0 \<noteq> CHR ''['' \<longrightarrow> lv_object_path_method (n0 # ns) ([], lay) = Inl IndexError)"
  using lv_generators_distinct
  by (simp add: lv_object_path_method_def index0_def)

text \<open>
  C3, amended, where several signals are present: a hidden name with thin-pool attributes;
  a thin-pool type code with \<^verbatim>\<open>pool\<close> in the layout; a cache type code with and without
  \<^verbatim>\<open>pool\<close> in the layout, as one string and as a list; and a plain volume.
\<close>

theorem lv_object_path_method_precedence_witness:
  "lv_object_path_method ''[pool_tmeta]'' (''twi-a-tz--'', LayoutStr ''thin,pool'')
     = Inr hidden_lv_obj_path_generate
   \<and> lv_object_path_method ''pool'' (''twi-a-tz--'', LayoutStr ''thin,pool'')
     = Inr thin_pool_obj_path_generate
   \<and> lv_object_path_method ''vpool'' (''dwi-a-----'', LayoutStr ''vdo,pool'')
     = Inr vdo_pool_object_path_generate
   \<and> lv_object_path_method ''cpool'' (''Cwi---C---'', LayoutStr ''cache,pool'')
     = Inr cache_pool_obj_path_generate
   \<and> lv_object_path_method ''cpool'' (''Cwi---C---'', LayoutList [''cache'', ''pool''])
     = Inr cache_pool_obj_path_generate
   \<and> lv_object_path_method ''cached'' (''Cwi-a-C---'', LayoutStr ''cache'')
     = Inr lv_obj_path_generate
   \<and> lv_object_path_method ''root'' (''-wi-ao----'', LayoutStr ''linear'')
     = Inr lv_obj_path_generate
   \<and> hidden_lv_obj_path_generate \<noteq> lv_obj_path_generate"
  using lv_object_path_method_precedence [of "CHR ''[''" "''pool_tmeta]''" "CHR ''t''" "''wi-a-tz--''"
      "LayoutStr ''thin,pool''" "(''twi-a-tz--'', LayoutStr ''thin,pool'')"]
    lv_object_path_method_precedence [of "CHR ''p''" "''ool''" "CHR ''t''" "''wi-a-tz--''"
      "LayoutStr ''thin,pool''"]
    lv_object_path_method_precedence [of "CHR ''v''" "''pool''" "CHR ''d''" "''wi-a-----''"
      "LayoutStr ''vdo,pool''"]
    lv_object_path_method_precedence [of "CHR ''c''" "''pool''" "CHR ''C''" "''wi---C---''"
      "LayoutStr ''cache,pool''"]
    lv_object_path_method_precedence [of "CHR ''c''" "''pool''" "CHR ''C''" "''wi---C---''"
      "LayoutList [''cache'', ''pool'']"]
    lv_object_path_method_precedence [of "CHR ''c''" "''ached''" "CHR ''C''" "''wi-a-C---''"
      "LayoutStr ''cache''"]
    lv_object_path_method_precedence [of "CHR ''r''" "''oot''" "CHR ''-''" "''wi-ao----''"
      "LayoutStr ''linear''"]
  by simp

section \<open>move and _move_merge\<close>

subsection \<open>What the progress callback leaves alone\<close>

text \<open>
  The callback writes \<^verbatim>\<open>Percent\<close>, the work queue and the log, and nothing else: the flight
  recorder, the store of execution records, the list of started processes and the reload
  count are as before, after one line and after any number of lines.
\<close>

lemma move_callback_try_frame:
  "flightrecorder (snd (snd (move_callback_try job_state l c))) = flightrecorder c
   \<and> metas (snd (snd (move_callback_try job_state l c))) = metas c
   \<and> next_ref (snd (snd (move_callback_try job_state l c))) = next_ref c
   \<and> spawned (snd (snd (move_callback_try job_state l c))) = spawned c
   \<and> loads (snd (snd (move_callback_try job_state l c))) = loads c"
  unfolding move_callback_try_def
  by (simp split: option.splits sum.splits prod.splits)

lemma move_callback_frame:
  "flightrecorder (snd (snd (move_callback job_state l c))) = flightrecorder c
   \<and> metas (snd (snd (move_callback job_state l c))) = metas c
   \<and> next_ref (snd (snd (move_callback job_state l c))) = next_ref c
   \<and> spawned (snd (snd (move_callback job_state l c))) = spawned c
   \<and> loads (snd (snd (move_callback job_state l c))) = loads c"
proof -
  obtain r js' c' where t: "move_callback_try job_state l c = (r, js', c')"
    by (cases "move_callback_try job_state l c") auto
  have c': "flightrecorder c' = flightrecorder c \<and> metas c' = metas c \<and> next_ref c' = next_ref c
      \<and> spawned c' = spawned c \<and> loads c' = loads c"
    using move_callback_try_frame [of job_state l c] t by simp
  show ?thesis
  proof (cases "r = Inl ValueError")
    case True
    with t c' show ?thesis
      by (simp add: move_callback_def log_error_def)
  next
    case False
    with t have "move_callback job_state l c = (r, js', c')"
      by (auto simp: move_callback_def split: sum.splits fault.splits)
    with c' show ?thesis by simp
  qed
qed

lemma deliver_lines_frame:
  "flightrecorder (snd (deliver_lines move_callback ls job_state c)) = flightrecorder c
   \<and> metas (snd (deliver_lines move_callback ls job_state c)) = metas c
   \<and> next_ref (snd (deliver_lines move_callback ls job_state c)) = next_ref c
   \<and> spawned (snd (deliver_lines move_callback ls job_state c)) = spawned c
   \<and> loads (snd (deliver_lines move_callback ls job_state c)) = loads c"
proof (induction ls arbitrary: job_state c)
  case Nil
  show ?case by simp
next
  case (Cons l ls)
  obtain r js' c' where s: "move_callback job_state l c = (r, js', c')"
    by (cases "move_callback job_state l c") auto
  have "deliver_lines move_callback (l # ls) job_state c = deliver_lines move_callback ls js' c'"
    using s by simp
  then show ?case
    using Cons.IH [of js' c'] move_callback_frame [of job_state l c] s by simp
qed

lemma call_lvm_result:
  "fst (call_lvm ev command move_callback job_state c) =
     (p_ec (run_process ev command), p_stdout (run_process ev command),
      p_stderr (run_process ev command))"
  by (simp add: call_lvm_def Let_def case_prod_beta)

lemma call_lvm_frame:
  "flightrecorder (snd (snd (call_lvm ev command move_callback job_state c))) = flightrecorder c
   \<and> metas (snd (snd (call_lvm ev command move_callback job_state c))) = metas c
   \<and> next_ref (snd (snd (call_lvm ev command move_callback job_state c))) = next_ref c
   \<and> spawned (snd (snd (call_lvm ev command move_callback job_state c))) = spawned c @ [command]
   \<and> loads (snd (snd (call_lvm ev command move_callback job_state c))) = loads c"
  using deliver_lines_frame [of "p_lines (run_process ev command)" job_state
      "c\<lparr>spawned := spawned c @ [command]\<rparr>"]
  by (simp add: call_lvm_def Let_def case_prod_beta)

subsection \<open>Claim C5\<close>

lemma resolve_dests_unresolved:
  assumes "\<exists>pr\<in>set prs. om c (fst pr) = None"
  shows "\<exists>msg. resolve_dests c interface_name acc prs = Inl (DBusException [interface_name, msg])"
  using assms
proof (induction prs arbitrary: acc)
  case Nil
  then show ?case by simp
next
  case (Cons pr prs)
  obtain path start "end" where pr: "pr = (path, start, end)"
    by (cases pr) auto
  show ?case
  proof (cases "om c path")
    case None
    with pr show ?thesis by simp
  next
    case (Some obj)
    with Cons.prems pr have "\<exists>pr\<in>set prs. om c (fst pr) = None" by auto
    from Cons.IH [OF this] Some pr show ?thesis by simp
  qed
qed

text \<open>
  C5. If the source path, or the path of any destination, does not resolve in the object
  graph, \<open>move\<close> raises a \<^verbatim>\<open>DBusException\<close> for the interface, and the state after it is the
  state before it: no process has been started (\<open>spawned\<close>), the flight recorder and the
  store of execution records are unchanged, and so is the job.
\<close>

theorem move_unresolved_reference:
  assumes "om c pv_src_obj = None \<or> (\<exists>pr\<in>set pv_dests_and_ranges. om c (fst pr) = None)"
  shows "\<exists>msg. move ev interface_name lv_name pv_src_obj pv_source_range pv_dests_and_ranges
                 move_options job_state c
               = (Inl (DBusException [interface_name, msg]), job_state, c)"
proof (cases "om c pv_src_obj")
  case None
  then show ?thesis by (simp add: move_def)
next
  case (Some pv_src)
  with assms have "\<exists>pr\<in>set pv_dests_and_ranges. om c (fst pr) = None" by simp
  then obtain msg where
    "resolve_dests c interface_name [] pv_dests_and_ranges = Inl (DBusException [interface_name, msg])"
    using resolve_dests_unresolved by blast
  with Some show ?thesis by (simp add: move_def)
qed

text \<open>
  C5 at a move whose second destination does not resolve: the fault names that path, and
  nothing has been run or recorded.
\<close>

theorem move_unresolved_reference_witness:
  "om example_cfg ''/com/redhat/lvmdbus1/Pv/7'' = None
   \<and> move (example_env [] 0 []) ''com.redhat.lvmdbus1.Pv'' None ''/com/redhat/lvmdbus1/Pv/0'' (0, 0)
        [(''/com/redhat/lvmdbus1/Pv/0'', 0, 0), (''/com/redhat/lvmdbus1/Pv/7'', 0, 0)] []
        \<lparr>Percent = 1\<rparr> example_cfg
      = (Inl (DBusException [''com.redhat.lvmdbus1.Pv'',
                ''PV Destination (/com/redhat/lvmdbus1/Pv/7) not found'']),
         \<lparr>Percent = 1\<rparr>, example_cfg)
   \<and> spawned example_cfg = [] \<and> fr_queue (flightrecorder example_cfg) = []"
proof -
  have h: "om example_cfg ''/com/redhat/lvmdbus1/Pv/0'' = None
      \<or> (\<exists>pr\<in>set [(''/com/redhat/lvmdbus1/Pv/0'', 0::int, 0::int), (''/com/redhat/lvmdbus1/Pv/7'', 0, 0)].
            om example_cfg (fst pr) = None)"
    by (simp add: example_cfg_def)
  have m: "om example_cfg ''/com/redhat/lvmdbus1/Pv/0'' = Some \<lparr>lvm_id = ''/dev/sda''\<rparr>"
    "om example_cfg ''/com/redhat/lvmdbus1/Pv/7'' = None"
    by (simp_all add: example_cfg_def)
  have s: "spawned example_cfg = [] \<and> fr_queue (flightrecorder example_cfg) = []"
    by (simp add: example_cfg_def)
  show ?thesis
    using s move_unresolved_reference [OF h, of "example_env [] 0 []" "''com.redhat.lvmdbus1.Pv''"
        None "(0, 0)" "[]" "\<lparr>Percent = 1\<rparr>"]
    by (simp add: move_def m)
qed

subsection \<open>Claim C6\<close>

lemma move_merge_unfold:
  "move_merge ev interface_name command job_state c =
     (let run = run_process ev command;
          r3 = call_lvm ev command move_callback job_state (recorded ev command c);
          c4 = meta_completed (next_ref c) (t_ended ev) (p_ec run) (p_stdout run) (p_stderr run)
                 (snd (snd r3))
      in if p_ec run = 0 then (Inr ''/'', (fst (snd r3))\<lparr>Percent := 100\<rparr>, load c4)
         else
           (Inl (DBusException
                   [interface_name,
                    ''Exit code '' @ str_int (p_ec run) @ '', stderr = '' @ p_stderr run]),
            fst (snd r3), c4))"
  by (simp add: move_merge_def new_meta_def recorded_def Let_def case_prod_beta call_lvm_result)

lemma recorded_fields:
  "metas (recorded ev command c) =
     (metas c)(next_ref c \<mapsto> \<lparr>m_start = t_start ev, m_ended = 0, m_cmd = command,
                                 m_ec = None, m_stdout = None, m_stderr = None\<rparr>)"
  "flightrecorder (recorded ev command c) = flightrecorder_add (next_ref c) (flightrecorder c)"
  "spawned (recorded ev command c) = spawned c"
  "loads (recorded ev command c) = loads c"
  by (simp_all add: recorded_def new_meta_def Let_def)

lemma meta_completed_fields:
  "flightrecorder (meta_completed a t ec out err c) = flightrecorder c"
  "spawned (meta_completed a t ec out err c) = spawned c"
  "loads (meta_completed a t ec out err c) = loads c"
  "metas (meta_completed a t ec out err c) =
     (case metas c a of None \<Rightarrow> metas c
      | Some m \<Rightarrow> (metas c)(a \<mapsto> completed t ec out err m))"
  by (simp_all add: meta_completed_def split: option.splits)

lemma flightrecorder_add_queue:
  assumes "0 < fr_size fr"
  shows "fr_queue (flightrecorder_add a fr) =
           drop (Suc (length (fr_queue fr)) - fr_size fr) (fr_queue fr) @ [a]"
  using assms by (simp add: flightrecorder_add_def Let_def)

text \<open>
  C6. Let the external command end with a nonzero exit code. Then \<open>move_merge\<close> raises a
  \<^verbatim>\<open>DBusException\<close> for the interface whose message is \<^verbatim>\<open>Exit code\<close>, the exit code in
  decimal, \<^verbatim>\<open>, stderr =\<close> and the captured stderr text as it is. The flight recorder
  afterwards is the flight recorder before with exactly one record added to it, and that
  record holds the command, the exit code and the captured output. So a recorder with room
  for at least one entry holds its previous entries, less those evicted from the old end,
  followed by the one new entry. No other record has changed, and the command has been run
  once.
\<close>

theorem move_merge_failure:
  assumes "p_ec (run_process ev command) \<noteq> 0"
  shows
    "(let run = run_process ev command;
          r = move_merge ev interface_name command job_state c;
          c' = snd (snd r);
          q = fr_queue (flightrecorder c)
      in fst r = Inl (DBusException
                   [interface_name,
                    ''Exit code '' @ str_int (p_ec run) @ '', stderr = '' @ p_stderr run])
         \<and> flightrecorder c' = flightrecorder_add (next_ref c) (flightrecorder c)
         \<and> (0 < fr_size (flightrecorder c) \<longrightarrow>
              fr_queue (flightrecorder c') =
                drop (Suc (length q) - fr_size (flightrecorder c)) q @ [next_ref c])
         \<and> metas c' (next_ref c) =
             Some \<lparr>m_start = t_start ev, m_ended = t_ended ev, m_cmd = command,
                   m_ec = Some (p_ec run), m_stdout = Some (p_stdout run),
                   m_stderr = Some (p_stderr run)\<rparr>
         \<and> (\<forall>a. a \<noteq> next_ref c \<longrightarrow> metas c' a = metas c a)
         \<and> spawned c' = spawned c @ [command])"
proof -
  let ?run = "run_process ev command"
  let ?r3 = "call_lvm ev command move_callback job_state (recorded ev command c)"
  let ?c3 = "snd (snd ?r3)"
  let ?c4 = "meta_completed (next_ref c) (t_ended ev) (p_ec ?run) (p_stdout ?run) (p_stderr ?run) ?c3"
  let ?q = "fr_queue (flightrecorder c)"
  have mm: "move_merge ev interface_name command job_state c =
      (Inl (DBusException
              [interface_name,
               ''Exit code '' @ str_int (p_ec ?run) @ '', stderr = '' @ p_stderr ?run]),
       fst (snd ?r3), ?c4)"
    using assms(1) by (simp add: move_merge_unfold Let_def)
  have c3: "flightrecorder ?c3 = flightrecorder_add (next_ref c) (flightrecorder c)"
    "metas ?c3 = (metas c)(next_ref c \<mapsto> \<lparr>m_start = t_start ev, m_ended = 0, m_cmd = command,
                                 m_ec = None, m_stdout = None, m_stderr = None\<rparr>)"
    "spawned ?c3 = spawned c @ [command]"
    using call_lvm_frame [of ev command job_state "recorded ev command c"]
    by (simp_all add: recorded_fields)
  have added: "flightrecorder ?c4 = flightrecorder_add (next_ref c) (flightrecorder c)"
    by (simp add: meta_completed_fields c3)
  have queue: "0 < fr_size (flightrecorder c) \<longrightarrow>
      fr_queue (flightrecorder ?c4) =
        drop (Suc (length ?q) - fr_size (flightrecorder c)) ?q @ [next_ref c]"
    by (simp add: added flightrecorder_add_queue)
  have meta: "metas ?c4 (next_ref c) =
      Some \<lparr>m_start = t_start ev, m_ended = t_ended ev, m_cmd = command,
            m_ec = Some (p_ec ?run), m_stdout = Some (p_stdout ?run),
            m_stderr = Some (p_stderr ?run)\<rparr>"
    by (simp add: meta_completed_fields c3 completed_def)
  have others: "\<forall>a. a \<noteq> next_ref c \<longrightarrow> metas ?c4 a = metas c a"
    by (simp add: meta_completed_fields c3)
  have run: "spawned ?c4 = spawned c @ [command]"
    by (simp add: meta_completed_fields c3)
  show ?thesis
    unfolding Let_def mm fst_conv snd_conv
    using added queue meta others run by blast
qed

text \<open>
  C6 at a move that prints one progress line and exits with code 1 and the stderr text
  \<^verbatim>\<open>insufficient free space\<close>, in the example state, whose flight recorder is empty.
\<close>

theorem move_merge_failure_witness:
  "p_ec (run_process (example_env [''/dev/sda:0:42.5%''] 1 ''insufficient free space'')
          [''pvmove'', ''-i'', ''1'', ''/dev/sda'']) \<noteq> 0
   \<and> flightrecorder example_cfg = \<lparr>fr_size = 16, fr_queue = []\<rparr>
   \<and> fst (move_merge (example_env [''/dev/sda:0:42.5%''] 1 ''insufficient free space'')
            ''com.redhat.lvmdbus1.Pv'' [''pvmove'', ''-i'', ''1'', ''/dev/sda'']
            \<lparr>Percent = 1\<rparr> example_cfg)
       = Inl (DBusException [''com.redhat.lvmdbus1.Pv'',
                ''Exit code 1, stderr = insufficient free space''])
   \<and> fr_queue (flightrecorder (snd (snd
         (move_merge (example_env [''/dev/sda:0:42.5%''] 1 ''insufficient free space'')
            ''com.redhat.lvmdbus1.Pv'' [''pvmove'', ''-i'', ''1'', ''/dev/sda'']
            \<lparr>Percent = 1\<rparr> example_cfg)))) = [0]
   \<and> metas (snd (snd
         (move_merge (example_env [''/dev/sda:0:42.5%''] 1 ''insufficient free space'')
            ''com.redhat.lvmdbus1.Pv'' [''pvmove'', ''-i'', ''1'', ''/dev/sda'']
            \<lparr>Percent = 1\<rparr> example_cfg))) 0
       = Some \<lparr>m_start = 1000, m_ended = 1060, m_cmd = [''pvmove'', ''-i'', ''1'', ''/dev/sda''],
               m_ec = Some 1, m_stdout = Some [], m_stderr = Some ''insufficient free space''\<rparr>"
proof -
  have e: "run_process (example_env [''/dev/sda:0:42.5%''] 1 ''insufficient free space'')
             [''pvmove'', ''-i'', ''1'', ''/dev/sda'']
           = \<lparr>p_lines = [''/dev/sda:0:42.5%''], p_ec = 1, p_stdout = [],
               p_stderr = ''insufficient free space''\<rparr>"
    "t_start (example_env [''/dev/sda:0:42.5%''] 1 ''insufficient free space'') = 1000"
    "t_ended (example_env [''/dev/sda:0:42.5%''] 1 ''insufficient free space'') = 1060"
    by (simp_all add: example_env_def)
  have c: "fr_size (flightrecorder example_cfg) = 16" "fr_queue (flightrecorder example_cfg) = []"
    "next_ref example_cfg = 0"
    by (simp_all add: example_cfg_def)
  have h1: "p_ec (run_process (example_env [''/dev/sda:0:42.5%''] 1 ''insufficient free space'')
          [''pvmove'', ''-i'', ''1'', ''/dev/sda'']) \<noteq> 0"
    by (simp add: e)
  have h2: "0 < fr_size (flightrecorder example_cfg)"
    by (simp add: c)
  have f: "flightrecorder example_cfg = \<lparr>fr_size = 16, fr_queue = []\<rparr>"
    by (simp add: example_cfg_def)
  note t = move_merge_failure [OF h1, of "''com.redhat.lvmdbus1.Pv''" "\<lparr>Percent = 1\<rparr>" example_cfg,
      unfolded Let_def]
  from t have msg: "fst (move_merge (example_env [''/dev/sda:0:42.5%''] 1 ''insufficient free space'')
            ''com.redhat.lvmdbus1.Pv'' [''pvmove'', ''-i'', ''1'', ''/dev/sda'']
            \<lparr>Percent = 1\<rparr> example_cfg)
       = Inl (DBusException [''com.redhat.lvmdbus1.Pv'',
                ''Exit code 1, stderr = insufficient free space''])"
    by (simp add: e str_int_def digit_char_def)
  from t h2 have q: "fr_queue (flightrecorder (snd (snd
         (move_merge (example_env [''/dev/sda:0:42.5%''] 1 ''insufficient free space'')
            ''com.redhat.lvmdbus1.Pv'' [''pvmove'', ''-i'', ''1'', ''/dev/sda'']
            \<lparr>Percent = 1\<rparr> example_cfg)))) = [0]"
    by (simp add: c flightrecorder_add_def)
  from t have m: "metas (snd (snd
         (move_merge (example_env [''/dev/sda:0:42.5%''] 1 ''insufficient free space'')
            ''com.redhat.lvmdbus1.Pv'' [''pvmove'', ''-i'', ''1'', ''/dev/sda'']
            \<lparr>Percent = 1\<rparr> example_cfg))) 0
       = Some \<lparr>m_start = 1000, m_ended = 1060, m_cmd = [''pvmove'', ''-i'', ''1'', ''/dev/sda''],
               m_ec = Some 1, m_stdout = Some [], m_stderr = Some ''insufficient free space''\<rparr>"
    by (simp add: e c)
  from h1 f msg q m show ?thesis
    by blast
qed

section \<open>The progress callback\<close>

subsection \<open>Evaluating the conversion of a percentage\<close>

lemmas float_eval =
  parse_percentage_def strip_def strip_with_def py_isspace_def c_isspace_def
  float_of_str_def to_ascii_spaces_def parse_unsigned_def ascii_lower_def parse_number_def
  digitpart_def digit_val_def parse_exponent_def digits_value_def decimal_to_float_def
  nearest_double_def ilog2_frac_def pow2_le_frac_def round_half_even_def round1_def
  int_of_float_def Let_def

lemma parse_percentage_42_5: "parse_percentage ''42.5%'' = Inr 42"
  by (simp add: float_eval)

lemma parse_percentage_99_96: "parse_percentage ''99.96%'' = Inr 100"
  by (simp add: float_eval)




lemma parse_percentage_na: "parse_percentage ''n/a%'' = Inl ValueError"
  by (simp add: float_eval)

subsection \<open>One call of the callback\<close>

lemma move_callback_match:
  assumes "count_list l CHR '':'' = 2" and "split_on CHR '':'' l = [d, i, p]"
    and "parse_percentage p = Inr n"
  shows "move_callback job_state l c =
           (Inr (), job_state\<lparr>Percent := n\<rparr>,
            c\<lparr>worker_q := worker_q c @
                 [RequestEntry (- 1) load_wrapper [''_move_callback: load''] None None False]\<rparr>)"
  using assms by (simp add: move_callback_def move_callback_try_def)

lemma move_callback_other_shape:
  assumes "count_list l CHR '':'' \<noteq> 2"
  shows "move_callback job_state l c = (Inr (), job_state, c)"
  using assms by (simp add: move_callback_def move_callback_try_def)

lemma move_callback_value_error:
  assumes "count_list l CHR '':'' = 2" and "split_on CHR '':'' l = [d, i, p]"
    and "parse_percentage p = Inl ValueError"
  shows "move_callback job_state l c =
           (Inr (), job_state,
            log_error (''Trying to parse percentage which failed for '' @ l) c)"
  using assms by (simp add: move_callback_def move_callback_try_def)

lemma move_merge_success_percent:
  assumes "p_ec (run_process ev command) = 0"
  shows "Percent (fst (snd (move_merge ev interface_name command job_state c))) = 100"
  using assms by (simp add: move_merge_unfold Let_def)

subsection \<open>Claim C9\<close>

text \<open>
  C9 as stated fails: a line without two colons does not have the progress shape, and the
  callback does not log it. After the call the state, and with it the log, is what it was.
\<close>

theorem move_callback_counterexample:
  "move_callback \<lparr>Percent = 1\<rparr> ''  Detected pvmove in progress for /dev/sda'' example_cfg
     = (Inr (), \<lparr>Percent = 1\<rparr>, example_cfg)
   \<and> stdout_log example_cfg = []"
  by (simp add: move_callback_def move_callback_try_def example_cfg_def)

text \<open>
  C9, amended. A line that does not hold exactly two colons is ignored without being
  logged: the callback returns normally and changes neither \<^verbatim>\<open>Percent\<close> nor anything else.
  A line with exactly two colons whose third field is no number (\<^verbatim>\<open>float\<close> or \<^verbatim>\<open>int\<close> raises
  \<^verbatim>\<open>ValueError\<close>) is logged, with the message
  \<^verbatim>\<open>Trying to parse percentage which failed for\<close> followed by the line; the callback returns
  normally, \<^verbatim>\<open>Percent\<close> is unchanged and no reload is scheduled.
\<close>

theorem move_callback_non_matching:
  "(count_list l CHR '':'' \<noteq> 2 \<longrightarrow> move_callback job_state l c = (Inr (), job_state, c))
   \<and> (count_list l CHR '':'' = 2 \<and> split_on CHR '':'' l = [d, i, p]
        \<and> parse_percentage p = Inl ValueError \<longrightarrow>
        move_callback job_state l c =
          (Inr (), job_state,
           log_error (''Trying to parse percentage which failed for '' @ l) c))"
  using move_callback_other_shape [of l job_state c]
    move_callback_value_error [of l d i p job_state c]
  by blast

text \<open>
  C9, amended, at a line without colons and at a line with two colons whose third field
  is \<^verbatim>\<open>n/a%\<close>.
\<close>

theorem move_callback_non_matching_witness:
  "count_list ''  Detected pvmove in progress for /dev/sda'' CHR '':'' \<noteq> 2
   \<and> move_callback \<lparr>Percent = 1\<rparr> ''  Detected pvmove in progress for /dev/sda'' example_cfg
       = (Inr (), \<lparr>Percent = 1\<rparr>, example_cfg)
   \<and> count_list ''/dev/sda:0:n/a%'' CHR '':'' = 2
   \<and> split_on CHR '':'' ''/dev/sda:0:n/a%'' = [''/dev/sda'', ''0'', ''n/a%'']
   \<and> parse_percentage ''n/a%'' = Inl ValueError
   \<and> move_callback \<lparr>Percent = 1\<rparr> ''/dev/sda:0:n/a%'' example_cfg
       = (Inr (), \<lparr>Percent = 1\<rparr>,
          log_error ''Trying to parse percentage which failed for /dev/sda:0:n/a%'' example_cfg)"
proof -
  have a: "count_list ''  Detected pvmove in progress for /dev/sda'' CHR '':'' \<noteq> 2"
    by simp
  have b: "count_list ''/dev/sda:0:n/a%'' CHR '':'' = 2"
    "split_on CHR '':'' ''/dev/sda:0:n/a%'' = [''/dev/sda'', ''0'', ''n/a%'']"
    by simp_all
  show ?thesis
    using a b parse_percentage_na
      move_callback_non_matching [of "''  Detected pvmove in progress for /dev/sda''"
        "\<lparr>Percent = 1\<rparr>" example_cfg]
      move_callback_non_matching [of "''/dev/sda:0:n/a%''" "\<lparr>Percent = 1\<rparr>" example_cfg
        "''/dev/sda''" "''0''" "''n/a%''"]
    by simp
qed

subsection \<open>Claim C2\<close>

text \<open>
  C2 as stated fails: the line \<^verbatim>\<open>/dev/sda:0:42.5%\<close> sets \<^verbatim>\<open>Percent\<close> to 42, not to 43. The
  value 42.5 is already rounded to one decimal, and \<^verbatim>\<open>int\<close> truncates it.
\<close>

theorem move_callback_42_5_counterexample:
  "Percent (fst (snd (move_callback \<lparr>Percent = 1\<rparr> ''/dev/sda:0:42.5%'' example_cfg))) = 42
   \<and> Percent (fst (snd (move_callback \<lparr>Percent = 1\<rparr> ''/dev/sda:0:42.5%'' example_cfg))) \<noteq> 43"
proof -
  have "move_callback \<lparr>Percent = 1\<rparr> ''/dev/sda:0:42.5%'' example_cfg =
      (Inr (), \<lparr>Percent = 1\<rparr>\<lparr>Percent := 42\<rparr>,
       example_cfg\<lparr>worker_q := worker_q example_cfg @
         [RequestEntry (- 1) load_wrapper [''_move_callback: load''] None None False]\<rparr>)"
    by (rule move_callback_match [where d = "''/dev/sda''" and i = "''0''" and p = "''42.5%''"])
      (simp_all add: parse_percentage_42_5)
  then show ?thesis by simp
qed

text \<open>
  C2, amended. For a line with exactly two colons whose third field, stripped of
  surrounding whitespace and of its last character, is read by \<^verbatim>\<open>float\<close> as a finite number
  \<open>x\<close>, the callback sets \<^verbatim>\<open>Percent\<close> to \<open>x\<close> rounded to one decimal and then truncated
  toward zero to an integer, and appends to the work queue one request that runs the full
  state reload. In particular the line \<^verbatim>\<open>/dev/sda:0:42.5%\<close> sets \<^verbatim>\<open>Percent\<close> to 42. An exit
  code 0 of the command then makes \<open>move_merge\<close> set \<^verbatim>\<open>Percent\<close> to 100.
\<close>

theorem move_callback_progress_line:
  "(count_list l CHR '':'' = 2 \<and> split_on CHR '':'' l = [d, i, p]
      \<and> float_of_str (butlast (strip p)) = Inr x \<and> int_of_float (round1 x) = Inr n \<longrightarrow>
      move_callback job_state l c =
        (Inr (), job_state\<lparr>Percent := n\<rparr>,
         c\<lparr>worker_q := worker_q c @
              [RequestEntry (- 1) load_wrapper [''_move_callback: load''] None None False]\<rparr>))
   \<and> move_callback job_state ''/dev/sda:0:42.5%'' c =
        (Inr (), job_state\<lparr>Percent := 42\<rparr>,
         c\<lparr>worker_q := worker_q c @
              [RequestEntry (- 1) load_wrapper [''_move_callback: load''] None None False]\<rparr>)
   \<and> (p_ec (run_process ev command) = 0 \<longrightarrow>
        Percent (fst (snd (move_merge ev interface_name command job_state c))) = 100)"
proof (intro conjI impI)
  assume a: "count_list l CHR '':'' = 2 \<and> split_on CHR '':'' l = [d, i, p]
      \<and> float_of_str (butlast (strip p)) = Inr x \<and> int_of_float (round1 x) = Inr n"
  then have "parse_percentage p = Inr n"
    by (simp add: parse_percentage_def)
  with a show "move_callback job_state l c =
        (Inr (), job_state\<lparr>Percent := n\<rparr>,
         c\<lparr>worker_q := worker_q c @
              [RequestEntry (- 1) load_wrapper [''_move_callback: load''] None None False]\<rparr>)"
    using move_callback_match by blast
next
  show "move_callback job_state ''/dev/sda:0:42.5%'' c =
        (Inr (), job_state\<lparr>Percent := 42\<rparr>,
         c\<lparr>worker_q := worker_q c @
              [RequestEntry (- 1) load_wrapper [''_move_callback: load''] None None False]\<rparr>)"
    by (rule move_callback_match [where d = "''/dev/sda''" and i = "''0''" and p = "''42.5%''"])
      (simp_all add: parse_percentage_42_5)
next
  assume "p_ec (run_process ev command) = 0"
  then show "Percent (fst (snd (move_merge ev interface_name command job_state c))) = 100"
    by (rule move_merge_success_percent)
qed

text \<open>
  C2, amended, at the line \<^verbatim>\<open>/dev/sda:0:99.96%\<close>, where rounding to one decimal gives 100.0
  and \<^verbatim>\<open>Percent\<close> becomes 100; at the line \<^verbatim>\<open>/dev/sda:0:42.5%\<close>; and at a run that prints that
  line and exits with code 0.
\<close>

theorem move_callback_progress_line_witness:
  "count_list ''/dev/sda:0:99.96%'' CHR '':'' = 2
   \<and> split_on CHR '':'' ''/dev/sda:0:99.96%'' = [''/dev/sda'', ''0'', ''99.96%'']
   \<and> float_of_str (butlast (strip ''99.96%'')) = Inr (Finite 7034059667999293 (- 46))
   \<and> int_of_float (round1 (Finite 7034059667999293 (- 46))) = Inr 100
   \<and> move_callback \<lparr>Percent = 1\<rparr> ''/dev/sda:0:99.96%'' example_cfg =
        (Inr (), \<lparr>Percent = 100\<rparr>,
         example_cfg\<lparr>worker_q := worker_q example_cfg @
              [RequestEntry (- 1) load_wrapper [''_move_callback: load''] None None False]\<rparr>)
   \<and> move_callback \<lparr>Percent = 1\<rparr> ''/dev/sda:0:42.5%'' example_cfg =
        (Inr (), \<lparr>Percent = 42\<rparr>,
         example_cfg\<lparr>worker_q := worker_q example_cfg @
              [RequestEntry (- 1) load_wrapper [''_move_callback: load''] None None False]\<rparr>)
   \<and> p_ec (run_process (example_env [''/dev/sda:0:42.5%''] 0 [])
         [''pvmove'', ''-i'', ''1'', ''/dev/sda'']) = 0
   \<and> Percent (fst (snd (move_merge (example_env [''/dev/sda:0:42.5%''] 0 [])
         ''com.redhat.lvmdbus1.Pv'' [''pvmove'', ''-i'', ''1'', ''/dev/sda'']
         \<lparr>Percent = 1\<rparr> example_cfg))) = 100"
proof -
  have h: "count_list ''/dev/sda:0:99.96%'' CHR '':'' = 2"
    "split_on CHR '':'' ''/dev/sda:0:99.96%'' = [''/dev/sda'', ''0'', ''99.96%'']"
    by simp_all
  have f: "float_of_str (butlast (strip ''99.96%'')) = Inr (Finite 7034059667999293 (- 46))"
    by (simp add: float_eval)
  have r: "int_of_float (round1 (Finite 7034059667999293 (- 46))) = Inr 100"
    by (simp add: float_eval)
  have e: "p_ec (run_process (example_env [''/dev/sda:0:42.5%''] 0 [])
         [''pvmove'', ''-i'', ''1'', ''/dev/sda'']) = 0"
    by (simp add: example_env_def)
  show ?thesis
    using h f r e
      move_callback_progress_line [of "''/dev/sda:0:99.96%''" "''/dev/sda''" "''0''" "''99.96%''"
        "Finite 7034059667999293 (- 46)" 100 "\<lparr>Percent = 1\<rparr>" example_cfg
        "example_env [''/dev/sda:0:42.5%''] 0 []" "[''pvmove'', ''-i'', ''1'', ''/dev/sda'']"
        "''com.redhat.lvmdbus1.Pv''"]
    by simp
qed

section \<open>The conversion of a percentage keeps order and range\<close>

subsection \<open>The binary logarithm of a fraction\<close>






subsection \<open>Rounding to the nearest integer\<close>







subsection \<open>Rounding to a multiple of a power of two\<close>










subsection \<open>The float nearest to a fraction\<close>














subsection \<open>\<^verbatim>\<open>int(round(x, 1))\<close> of the float nearest to a fraction\<close>










subsection \<open>From the decimals that the lines state to the integers that they report\<close>












section \<open>Percent over an operation\<close>










subsection \<open>Claim C1\<close>












end
